theory Spec2Isabelle
  imports Main
begin

section \<open>Numbers and dates as the program prints and compares them\<close>

text \<open>
  Identifiers, counters, quantities and amounts are JavaScript numbers that hold whole
  values; they are modelled as \<open>int\<close>. A \<open>Date\<close> is its time value, the number of
  milliseconds since the epoch, which is what \<open>\<le>\<close> on two dates compares.
\<close>

fun digitsOf :: "nat \<Rightarrow> string" where
  "digitsOf n = (if n < 10 then [''0123456789'' ! n]
                 else digitsOf (n div 10) @ [''0123456789'' ! (n mod 10)])"

declare digitsOf.simps [simp del]

definition toString :: "int \<Rightarrow> string" where
  \<comment> \<open>\<open>Number.prototype.toString\<close> and template interpolation of a whole number.\<close>
  "toString i = (if i < 0 then ''-'' @ digitsOf (nat (- i)) else digitsOf (nat i))"

section \<open>Entities and the store\<close>

record DeliverySlot =
  slot_id :: int
  startTime :: int
  endTime :: int
  isActive :: bool
  currentUsage :: int
  maxCapacity :: int

record NewOrder =
  userId :: int
  addressId :: int
  deliverySlotId :: "int option"
  totalAmount :: int
  status :: string

record Order = NewOrder +
  order_id :: int

record OrderItem =
  orderId :: int
  skuId :: string
  quantity :: int
  unitPrice :: int
  discount :: int
  subtotal :: int

record NewNotification =
  n_userId :: int
  n_orderId :: int
  n_type :: string
  title :: string
  content :: string
  isRead :: bool

record Notification = NewNotification +
  notification_id :: int

record User =
  user_id :: int

text \<open>
  An entity is built without its primary key (\<open>NewOrder\<close>, \<open>NewNotification\<close>) and gets
  it from the store when it is first saved.

  The store holds the tables of the data source, as committed; every call of
  \<open>AppDataSource.initialize()\<close> is taken to hand back that one data source. Looking a
  row up is a total function of the store: a read that is rejected because the connection
  is lost is not modelled, so the \<open>catch\<close> clause of \<open>validateSlotAvailability\<close>, which
  only rewraps such a rejection, has no branch here.
\<close>

record store =
  slots :: "DeliverySlot list"
  orders :: "Order list"
  orderItems :: "OrderItem list"
  notifications :: "Notification list"
  users :: "User list"

definition findSlot :: "store \<Rightarrow> int \<Rightarrow> DeliverySlot option" where
  \<comment> \<open>\<open>slotRepository.findOneBy({ id })\<close>\<close>
  "findSlot db sid = find (\<lambda>s. slot_id s = sid) (slots db)"

section \<open>The Slot Availability Checker\<close>

record SlotValidation =
  isAvailable :: bool
  slot :: "DeliverySlot option"
  message :: "string option"

definition validateSlotAvailability ::
  "int \<Rightarrow> int \<Rightarrow> store \<Rightarrow> SlotValidation \<times> store" where
  \<comment> \<open>The first argument is the evaluation instant \<open>new Date()\<close>; the store is threaded
      through and handed back as the call leaves it.\<close>
  "validateSlotAvailability now slotId db =
     (case findSlot db slotId of
        None \<Rightarrow>
          (\<lparr>isAvailable = False, slot = None,
            message = Some (''Delivery slot with ID '' @ toString slotId @ '' not found'')\<rparr>, db)
      | Some s \<Rightarrow>
          if \<not> isActive s then
            (\<lparr>isAvailable = False, slot = Some s,
              message = Some ''Selected delivery slot is inactive''\<rparr>, db)
          else if currentUsage s \<ge> maxCapacity s then
            (\<lparr>isAvailable = False, slot = Some s,
              message = Some (''Selected delivery slot is full ('' @ toString (currentUsage s)
                              @ ''/'' @ toString (maxCapacity s) @ '')'')\<rparr>, db)
          else if startTime s \<le> now then
            (\<lparr>isAvailable = False, slot = Some s,
              message = Some ''Selected delivery slot has already passed''\<rparr>, db)
          else (\<lparr>isAvailable = True, slot = Some s, message = None\<rparr>, db))"

section \<open>Requests, collaborators and failures\<close>

record OrderItemInput =
  in_skuId :: string
  qty :: int

text \<open>\<open>preferredSlotId\<close> is optional: \<open>None\<close> is the absent field.\<close>

record OrderInput =
  in_userId :: int
  in_addressId :: int
  items :: "OrderItemInput list"
  preferredSlotId :: "int option"

record InventoryValidation =
  valid :: bool
  errors :: "string list"

record PriceDetails =
  pd_totalAmount :: int
  itemPrices :: "string \<rightharpoonup> int"
  itemDiscounts :: "string \<rightharpoonup> int"

datatype SlotAssignmentMethod = user_selected | auto_assigned | fallback

datatype table = DeliverySlotTable | OrderTable | OrderItemTable | NotificationTable

datatype error =
    Error string  \<comment> \<open>\<open>throw new Error(message)\<close> in the program text\<close>
  | StoreRejected table  \<comment> \<open>the store rejects a save to that table\<close>
  | PricingFailed  \<comment> \<open>\<open>calculatePrice\<close> rejects\<close>
  | TransactionNotStartedError  \<comment> \<open>rollback with no transaction active\<close>

text \<open>
  What a call of \<open>createOrder\<close> meets outside its own text: the clock, the local time
  zone (the offset in milliseconds that local time has at an instant), the three
  collaborators \<open>validateInventory\<close>, \<open>calculatePrice\<close> and \<open>assignDefaultSlot\<close>, whose
  code is not part of the sources and which are taken as parameters with the interface
  the callers use, and the saves that the store rejects.
\<close>

record env =
  now :: int
  tz :: "int \<Rightarrow> int"
  validateInventory :: "OrderItemInput list \<Rightarrow> InventoryValidation"
  calculatePrice :: "OrderItemInput list \<Rightarrow> PriceDetails option"
  assignDefaultSlot :: "store \<Rightarrow> DeliverySlot option"
  rejects :: "table \<Rightarrow> bool"

record Publication =
  p_userId :: int
  p_orderId :: int
  p_type :: string
  p_title :: string
  p_content :: string
  notificationId :: int

text \<open>The committed tables together with what has been published on \<open>user:notification\<close>.\<close>

record world =
  committed :: store
  published :: "Publication list"

section \<open>The two ways the program writes\<close>

text \<open>
  \<open>createOrder\<close> holds two handles on the data source. The query runner carries the
  transaction that \<open>startTransaction\<close> opens: what \<open>queryRunner.manager.save\<close> writes is
  kept with the transaction, reaches the committed tables at \<open>commitTransaction\<close> and is
  dropped by \<open>rollbackTransaction\<close>. The repositories obtained from
  \<open>dataSource.getRepository\<close> belong to the data source's own manager, not to the query
  runner: each \<open>save\<close> through them is its own unit of work and is committed when it
  returns.
\<close>

record queryRunner =
  isTransactionActive :: bool
  pendingSlots :: "DeliverySlot list"

definition startTransaction :: queryRunner where
  "startTransaction = \<lparr>isTransactionActive = True, pendingSlots = []\<rparr>"

definition saveSlotRow :: "DeliverySlot \<Rightarrow> DeliverySlot list \<Rightarrow> DeliverySlot list" where
  \<comment> \<open>\<open>save\<close> of an entity that has its primary key: update the row, insert if there is none.\<close>
  "saveSlotRow s rows =
     (if \<exists>r \<in> set rows. slot_id r = slot_id s
      then map (\<lambda>r. if slot_id r = slot_id s then s else r) rows
      else rows @ [s])"

definition managerSave :: "env \<Rightarrow> DeliverySlot \<Rightarrow> queryRunner \<Rightarrow> error + queryRunner" where
  \<comment> \<open>\<open>queryRunner.manager.save(DeliverySlot, deliverySlot)\<close>\<close>
  "managerSave e s qr =
     (if rejects e DeliverySlotTable then Inl (StoreRejected DeliverySlotTable)
      else Inr (qr\<lparr>pendingSlots := pendingSlots qr @ [s]\<rparr>))"

definition commitTransaction :: "world \<Rightarrow> queryRunner \<Rightarrow> world \<times> queryRunner" where
  "commitTransaction w qr =
     (w\<lparr>committed := (committed w)\<lparr>slots := fold saveSlotRow (pendingSlots qr) (slots (committed w))\<rparr>\<rparr>,
      \<lparr>isTransactionActive = False, pendingSlots = []\<rparr>)"

definition rollbackTransaction :: "queryRunner \<Rightarrow> error + queryRunner" where
  "rollbackTransaction qr =
     (if isTransactionActive qr then Inr \<lparr>isTransactionActive = False, pendingSlots = []\<rparr>
      else Inl TransactionNotStartedError)"

definition nextId :: "int list \<Rightarrow> int" where
  \<comment> \<open>The generated primary key: one more than the largest key in the table.\<close>
  "nextId ids = fold max ids 0 + 1"

definition findUser :: "store \<Rightarrow> int \<Rightarrow> User option" where
  \<comment> \<open>\<open>userRepository.findOneBy({ id })\<close>\<close>
  "findUser db uid = find (\<lambda>u. user_id u = uid) (users db)"

definition orderWithId :: "NewOrder \<Rightarrow> int \<Rightarrow> Order" where
  "orderWithId newOrder i =
     \<lparr>userId = userId newOrder, addressId = addressId newOrder,
      deliverySlotId = deliverySlotId newOrder, totalAmount = totalAmount newOrder,
      status = status newOrder, order_id = i\<rparr>"

definition saveOrder :: "env \<Rightarrow> NewOrder \<Rightarrow> world \<Rightarrow> error + Order \<times> world" where
  \<comment> \<open>\<open>orderRepository.save(newOrder)\<close>\<close>
  "saveOrder e newOrder w =
     (if rejects e OrderTable then Inl (StoreRejected OrderTable)
      else
        let savedOrder = orderWithId newOrder (nextId (map order_id (orders (committed w))))
        in Inr (savedOrder,
                w\<lparr>committed := (committed w)\<lparr>orders := orders (committed w) @ [savedOrder]\<rparr>\<rparr>))"

definition saveOrderItems :: "env \<Rightarrow> OrderItem list \<Rightarrow> world \<Rightarrow> error + world" where
  \<comment> \<open>\<open>orderItemRepository.save(orderItems)\<close>: the batch is saved whole or not at all.\<close>
  "saveOrderItems e newItems w =
     (if rejects e OrderItemTable then Inl (StoreRejected OrderItemTable)
      else Inr (w\<lparr>committed := (committed w)\<lparr>orderItems := orderItems (committed w) @ newItems\<rparr>\<rparr>))"

section \<open>The Notification Dispatcher\<close>

definition NOTIFICATION_TEMPLATES :: "(string \<times> string \<times> string) list" where
  \<comment> \<open>type, title, template\<close>
  "NOTIFICATION_TEMPLATES =
     [(''order_created'', ''Order Confirmation'',
         ''Your order #{orderId} has been received and is being processed. {deliveryInfo}''),
      (''order_confirmed'', ''Order Confirmed'',
         ''Good news! Your order #{orderId} has been confirmed. {deliveryInfo}''),
      (''order_shipped'', ''Order Shipped'',
         ''Your order #{orderId} is on its way to you! {deliveryInfo}''),
      (''order_delivered'', ''Order Delivered'',
         ''Your order #{orderId} has been delivered. Enjoy!''),
      (''order_cancelled'', ''Order Cancelled'',
         ''Your order #{orderId} has been cancelled. {reason}''),
      (''order_refunded'', ''Order Refunded'',
         ''Your refund for order #{orderId} has been processed. {reason}'')]"

record SlotWindow =
  w_id :: int
  w_startTime :: int
  w_endTime :: int

text \<open>
  The values of the context bag \<open>additionalData\<close>: strings, whole numbers, booleans,
  \<open>null\<close>, the slot window that \<open>createOrder\<close> passes (an object whose \<open>startTime\<close> and
  \<open>endTime\<close> are dates), and any other object or array, taken to have no \<open>startTime\<close>
  and no \<open>endTime\<close> property. The bag is the list of its entries in the order
  \<open>Object.entries\<close> gives them; a key that is absent reads as \<open>undefined\<close>.
\<close>

datatype jsval = JString string | JNumber int | JBoolean bool | JNull
  | JWindow SlotWindow | JObject

fun truthy :: "jsval option \<Rightarrow> bool" where
  "truthy None = False"
| "truthy (Some (JString s)) = (s \<noteq> [])"
| "truthy (Some (JNumber n)) = (n \<noteq> 0)"
| "truthy (Some (JBoolean b)) = b"
| "truthy (Some JNull) = False"
| "truthy (Some (JWindow w)) = True"
| "truthy (Some JObject) = True"

text \<open>
  \<open>new Date(slot.startTime)\<close>: the time value of the window's date, and the invalid date
  (\<open>None\<close>) when the property is \<open>undefined\<close>.
\<close>

fun startDate :: "jsval option \<Rightarrow> int option" where
  "startDate (Some (JWindow w)) = Some (w_startTime w)"
| "startDate _ = None"

fun endDate :: "jsval option \<Rightarrow> int option" where
  "endDate (Some (JWindow w)) = Some (w_endTime w)"
| "endDate _ = None"

definition getDay :: "env \<Rightarrow> int \<Rightarrow> int" where
  \<comment> \<open>Day of the week in local time, Sunday is 0; the epoch fell on a Thursday.\<close>
  "getDay e t = ((t + tz e t) div 86400000 + 4) mod 7"

definition getHours :: "env \<Rightarrow> int \<Rightarrow> int" where
  "getHours e t = ((t + tz e t) div 3600000) mod 24"

definition dayNames :: "string list" where
  "dayNames = [''Sunday'', ''Monday'', ''Tuesday'', ''Wednesday'',
               ''Thursday'', ''Friday'', ''Saturday'']"

definition dayName :: "env \<Rightarrow> int option \<Rightarrow> string" where
  \<comment> \<open>\<open>dayNames[startTime.getDay()]\<close> in a template literal; \<open>getDay\<close> of an invalid date
      is \<open>NaN\<close>, which indexes nothing.\<close>
  "dayName e d = (case d of None \<Rightarrow> ''undefined'' | Some t \<Rightarrow> dayNames ! nat (getDay e t))"

definition formatTime :: "env \<Rightarrow> int option \<Rightarrow> string" where
  \<comment> \<open>For an invalid date \<open>hours\<close> is \<open>NaN\<close>: not \<open>\<ge> 12\<close>, and falsy, so it becomes 12.\<close>
  "formatTime e d =
     (case d of
        None \<Rightarrow> ''12:00 AM''
      | Some t \<Rightarrow>
          let hours = getHours e t;
              ampm = (if hours \<ge> 12 then ''PM'' else ''AM'');
              hours = hours mod 12;
              hours = (if hours \<noteq> 0 then hours else 12)
          in toString hours @ '':00 '' @ ampm)"

definition findOrder :: "store \<Rightarrow> int \<Rightarrow> Order option" where
  "findOrder db oid = find (\<lambda>ord. order_id ord = oid) (orders db)"

definition deliverySlotOf :: "store \<Rightarrow> Order \<Rightarrow> DeliverySlot option" where
  \<comment> \<open>the relation \<open>deliverySlot\<close> of a loaded order\<close>
  "deliverySlotOf db ord =
     (case deliverySlotId ord of None \<Rightarrow> None | Some sid \<Rightarrow> findSlot db sid)"

definition formatDeliveryTime :: "env \<Rightarrow> int \<Rightarrow> (string \<times> jsval) list \<Rightarrow> store \<Rightarrow> string" where
  "formatDeliveryTime e oid additionalData db =
     (let slot = map_of additionalData ''deliverySlot'';
          method = map_of additionalData ''slotAssignmentMethod''
      in if truthy slot \<and> truthy method then
           let timeSlot = dayName e (startDate slot) @ '' '' @ formatTime e (startDate slot)
                          @ '' - '' @ formatTime e (endDate slot)
           in if method = Some (JString ''user_selected'') then
                ''Your selected delivery time: '' @ timeSlot
              else if method = Some (JString ''fallback'') then
                ''Your preferred time slot was unavailable, so we assigned the next available slot: ''
                  @ timeSlot
              else ''Scheduled for '' @ timeSlot
         else
           case Option.bind (findOrder db oid) (deliverySlotOf db) of
             None \<Rightarrow> ''Delivery details will be provided soon.''
           | Some s \<Rightarrow>
               ''Scheduled for '' @ dayName e (Some (startTime s)) @ '' ''
                 @ formatTime e (Some (startTime s)) @ '' - '' @ formatTime e (Some (endTime s)))"

subsection \<open>Interpolation\<close>

fun splitAtFirst :: "string \<Rightarrow> string \<Rightarrow> (string \<times> string) option" where
  \<comment> \<open>What stands before and after the first occurrence of the pattern.\<close>
  "splitAtFirst pat [] = (if pat = [] then Some ([], []) else None)"
| "splitAtFirst pat (c # cs) =
     (if take (length pat) (c # cs) = pat then Some ([], drop (length pat) (c # cs))
      else map_option (\<lambda>(b, a). (c # b, a)) (splitAtFirst pat cs))"

fun getSubstitution :: "string \<Rightarrow> string \<Rightarrow> string \<Rightarrow> string \<Rightarrow> string" where
  \<comment> \<open>The replacement text of \<open>String.prototype.replace\<close> for a string pattern, which has
      no capture groups: \<open>$$\<close> stands for a dollar sign, \<open>$&\<close> for the matched text,
      \<open>$\<close> with a backquote for what precedes the match, \<open>$\<close> with an apostrophe for
      what follows it; every other character stands for itself.\<close>
  "getSubstitution matched pre post [] = []"
| "getSubstitution matched pre post [c] = [c]"
| "getSubstitution matched pre post (c # d # r) =
     (if c = CHR ''$'' then
        (if d = CHR ''$'' then CHR ''$'' # getSubstitution matched pre post r
         else if d = CHR ''&'' then matched @ getSubstitution matched pre post r
         else if d = CHR 0x60 then pre @ getSubstitution matched pre post r
         else if d = CHR 0x27 then post @ getSubstitution matched pre post r
         else c # getSubstitution matched pre post (d # r))
      else c # getSubstitution matched pre post (d # r))"

definition replace :: "string \<Rightarrow> string \<Rightarrow> string \<Rightarrow> string" where
  \<comment> \<open>\<open>content.replace(pattern, replacement)\<close> with a string pattern: the first occurrence only.\<close>
  "replace str pat replacement =
     (case splitAtFirst pat str of
        None \<Rightarrow> str
      | Some (b, a) \<Rightarrow> b @ getSubstitution pat b a replacement @ a)"

definition indexValue :: "string \<Rightarrow> nat" where
  "indexValue k = fold (\<lambda>c n. 10 * n + (of_char c - 48)) k 0"

definition isArrayIndex :: "string \<Rightarrow> bool" where
  \<comment> \<open>A key that is the canonical decimal form of a whole number below \<open>2^32 - 1\<close>.\<close>
  "isArrayIndex k \<longleftrightarrow>
     k \<noteq> [] \<and> (\<forall>c \<in> set k. c \<in> set ''0123456789'') \<and> (k = ''0'' \<or> hd k \<noteq> CHR ''0'')
     \<and> indexValue k \<le> 4294967294"

definition setProperty :: "string \<times> jsval \<Rightarrow> (string \<times> jsval) list \<Rightarrow> (string \<times> jsval) list" where
  \<comment> \<open>A property that exists keeps its place and takes the new value; a new one goes last.\<close>
  "setProperty kv es =
     (if fst kv \<in> fst ` set es then map (\<lambda>kv'. if fst kv' = fst kv then kv else kv') es
      else es @ [kv])"

definition entries :: "(string \<times> jsval) list \<Rightarrow> (string \<times> jsval) list" where
  \<comment> \<open>\<open>Object.entries\<close>: array-index keys first, in ascending order, then the other keys
      in the order of their creation.\<close>
  "entries es =
     sort_key (\<lambda>kv. indexValue (fst kv)) (filter (\<lambda>kv. isArrayIndex (fst kv)) es)
     @ filter (\<lambda>kv. \<not> isArrayIndex (fst kv)) es"

definition messageData :: "int \<Rightarrow> string \<Rightarrow> (string \<times> jsval) list \<Rightarrow> (string \<times> jsval) list" where
  \<comment> \<open>\<open>{ orderId, deliveryInfo, ...additionalData }\<close>\<close>
  "messageData oid deliveryInfo additionalData =
     fold setProperty additionalData
       [(''orderId'', JNumber oid), (''deliveryInfo'', JString deliveryInfo)]"

definition replacePlaceholder :: "string \<times> jsval \<Rightarrow> string \<Rightarrow> string" where
  \<comment> \<open>The body of the loop over the entries: only strings and numbers are substituted.\<close>
  "replacePlaceholder kv str =
     (case snd kv of
        JString v \<Rightarrow> replace str (''{'' @ fst kv @ ''}'') v
      | JNumber n \<Rightarrow> replace str (''{'' @ fst kv @ ''}'') (toString n)
      | _ \<Rightarrow> str)"

definition interpolate :: "string \<Rightarrow> (string \<times> jsval) list \<Rightarrow> string" where
  "interpolate template data = fold replacePlaceholder (entries data) template"

definition notificationWithId :: "NewNotification \<Rightarrow> int \<Rightarrow> Notification" where
  "notificationWithId n i =
     \<lparr>n_userId = n_userId n, n_orderId = n_orderId n, n_type = n_type n, title = title n,
      content = content n, isRead = isRead n, notification_id = i\<rparr>"

definition notifyUser ::
  "env \<Rightarrow> int \<Rightarrow> string \<Rightarrow> int \<Rightarrow> (string \<times> jsval) list \<Rightarrow> world \<Rightarrow> (error + Notification) \<times> world" where
  "notifyUser e oid type uid additionalData w =
     (case map_of NOTIFICATION_TEMPLATES type of
        None \<Rightarrow>
          (Inl (Error (''Notification template for type '' @ [CHR 0x27] @ type @ [CHR 0x27]
                       @ '' not found'')), w)
      | Some (templateTitle, template) \<Rightarrow>
          let deliveryInfo = formatDeliveryTime e oid additionalData (committed w);
              notification =
                \<lparr>n_userId = uid, n_orderId = oid, n_type = type, title = templateTitle,
                 content = interpolate template (messageData oid deliveryInfo additionalData),
                 isRead = False\<rparr>
          in if rejects e NotificationTable then (Inl (StoreRejected NotificationTable), w)
             else
               let savedNotification =
                     notificationWithId notification
                       (nextId (map notification_id (notifications (committed w))))
               in (Inr savedNotification,
                   w\<lparr>committed := (committed w)\<lparr>notifications :=
                                     notifications (committed w) @ [savedNotification]\<rparr>,
                     published := published w @
                       [\<lparr>p_userId = uid, p_orderId = oid, p_type = type, p_title = templateTitle,
                         p_content = content notification,
                         notificationId = notification_id savedNotification\<rparr>]\<rparr>))"

section \<open>The Order Transaction Orchestrator\<close>

definition provided :: "int option \<Rightarrow> int option" where
  \<comment> \<open>The test \<open>if (orderInput.preferredSlotId)\<close>: an absent identifier and the number 0
      are both falsy.\<close>
  "provided p = (case p of None \<Rightarrow> None | Some n \<Rightarrow> if n \<noteq> 0 then Some n else None)"

definition orZero :: "int option \<Rightarrow> int" where
  \<comment> \<open>\<open>map[key] || 0\<close>: a missing entry and a falsy one both give 0.\<close>
  "orZero v = (case v of None \<Rightarrow> 0 | Some n \<Rightarrow> if n \<noteq> 0 then n else 0)"

definition methodName :: "SlotAssignmentMethod \<Rightarrow> string" where
  "methodName m = (case m of user_selected \<Rightarrow> ''user_selected''
                   | auto_assigned \<Rightarrow> ''auto_assigned'' | fallback \<Rightarrow> ''fallback'')"

definition reserveOrFallBack ::
  "env \<Rightarrow> SlotValidation \<Rightarrow> world \<Rightarrow> queryRunner
     \<Rightarrow> (error + DeliverySlot \<times> SlotAssignmentMethod) \<times> world \<times> queryRunner" where
  \<comment> \<open>Step 4 from the point where \<open>validateSlotAvailability\<close> has answered: the
      reservation or the fallback, then the test that a slot was found. The warning logged
      on the fallback path is not modelled.\<close>
  "reserveOrFallBack e slotValidation w qr =
     (case (isAvailable slotValidation, slot slotValidation) of
        (True, Some s) \<Rightarrow>
          let deliverySlot = s\<lparr>currentUsage := currentUsage s + 1\<rparr>
          in (case managerSave e deliverySlot qr of
                Inl err \<Rightarrow> (Inl err, w, qr)
              | Inr qr' \<Rightarrow> (Inr (deliverySlot, user_selected), w, qr'))
      | _ \<Rightarrow>
          (case assignDefaultSlot e (committed w) of
             None \<Rightarrow> (Inl (Error ''No delivery slots available''), w, qr)
           | Some s \<Rightarrow> (Inr (s, fallback), w, qr)))"

definition assignDeliverySlot ::
  "env \<Rightarrow> OrderInput \<Rightarrow> world \<Rightarrow> queryRunner
     \<Rightarrow> (error + DeliverySlot \<times> SlotAssignmentMethod) \<times> world \<times> queryRunner" where
  \<comment> \<open>Step 4 of \<open>createOrder\<close>.\<close>
  "assignDeliverySlot e orderInput w qr =
     (case provided (preferredSlotId orderInput) of
        Some sid \<Rightarrow>
          (case validateSlotAvailability (now e) sid (committed w) of
             (slotValidation, db') \<Rightarrow> reserveOrFallBack e slotValidation (w\<lparr>committed := db'\<rparr>) qr)
      | None \<Rightarrow>
          (case assignDefaultSlot e (committed w) of
             None \<Rightarrow> (Inl (Error ''No delivery slots available''), w, qr)
           | Some s \<Rightarrow> (Inr (s, auto_assigned), w, qr)))"

definition makeOrderItem :: "PriceDetails \<Rightarrow> int \<Rightarrow> OrderItemInput \<Rightarrow> OrderItem" where
  \<comment> \<open>The function mapped over \<open>orderInput.items\<close> in step 6.\<close>
  "makeOrderItem priceDetails savedOrderId item =
     (let price = orZero (itemPrices priceDetails (in_skuId item));
          disc = orZero (itemDiscounts priceDetails (in_skuId item))
      in \<lparr>orderId = savedOrderId, skuId = in_skuId item, quantity = qty item,
          unitPrice = price, discount = disc, subtotal = (price - disc) * qty item\<rparr>)"

record CompleteOrder =
  co_order :: Order
  co_items :: "OrderItem list"
  co_deliverySlot :: "DeliverySlot option"
  co_user :: "User option"

definition findCompleteOrder :: "store \<Rightarrow> int \<Rightarrow> CompleteOrder option" where
  \<comment> \<open>\<open>orderRepository.findOne\<close> with the relations \<open>items\<close>, \<open>deliverySlot\<close> and \<open>user\<close>.\<close>
  "findCompleteOrder db oid =
     map_option
       (\<lambda>ord. \<lparr>co_order = ord,
               co_items = filter (\<lambda>i. orderId i = order_id ord) (orderItems db),
               co_deliverySlot = deliverySlotOf db ord,
               co_user = findUser db (userId ord)\<rparr>)
       (findOrder db oid)"

fun join :: "string \<Rightarrow> string list \<Rightarrow> string" where
  "join sep [] = []"
| "join sep [x] = x"
| "join sep (x # y # r) = x @ sep @ join sep (y # r)"

definition newOrderFor :: "OrderInput \<Rightarrow> PriceDetails \<Rightarrow> DeliverySlot \<Rightarrow> NewOrder" where
  \<comment> \<open>Step 5: the order as it is built before it is saved.\<close>
  "newOrderFor orderInput priceDetails deliverySlot =
     \<lparr>userId = in_userId orderInput, addressId = in_addressId orderInput,
      deliverySlotId = Some (slot_id deliverySlot),
      totalAmount = pd_totalAmount priceDetails, status = ''pending''\<rparr>"

definition orderCreatedData :: "SlotAssignmentMethod \<Rightarrow> DeliverySlot \<Rightarrow> (string \<times> jsval) list" where
  \<comment> \<open>Step 7: the context handed to \<open>notifyUser\<close>.\<close>
  "orderCreatedData slotAssignmentMethod deliverySlot =
     [(''slotAssignmentMethod'', JString (methodName slotAssignmentMethod)),
      (''deliverySlot'', JWindow \<lparr>w_id = slot_id deliverySlot,
                                  w_startTime = startTime deliverySlot,
                                  w_endTime = endTime deliverySlot\<rparr>)]"

definition persistAndNotify ::
  "env \<Rightarrow> OrderInput \<Rightarrow> User \<Rightarrow> PriceDetails \<Rightarrow> DeliverySlot \<Rightarrow> SlotAssignmentMethod
     \<Rightarrow> world \<Rightarrow> queryRunner \<Rightarrow> (error + CompleteOrder) \<times> world \<times> queryRunner" where
  \<comment> \<open>Steps 5 to 7, the commit and the final read. A step that throws leaves with the
      world and the transaction as they are at that point.\<close>
  "persistAndNotify e orderInput user priceDetails deliverySlot slotAssignmentMethod w1 qr1 =
     (case saveOrder e (newOrderFor orderInput priceDetails deliverySlot) w1 of
        Inl err \<Rightarrow> (Inl err, w1, qr1)
      | Inr (savedOrder, w2) \<Rightarrow>
      (case saveOrderItems e
             (map (makeOrderItem priceDetails (order_id savedOrder)) (items orderInput)) w2 of
        Inl err \<Rightarrow> (Inl err, w2, qr1)
      | Inr w3 \<Rightarrow>
      (case notifyUser e (order_id savedOrder) ''order_created'' (user_id user)
             (orderCreatedData slotAssignmentMethod deliverySlot) w3 of
        (Inl err, w4) \<Rightarrow> (Inl err, w4, qr1)
      | (Inr notification, w4) \<Rightarrow>
      (case commitTransaction w4 qr1 of
        (w5, qr2) \<Rightarrow>
      (case findCompleteOrder (committed w5) (order_id savedOrder) of
        None \<Rightarrow>
          (Inl (Error (''Failed to retrieve the created order with ID ''
                       @ toString (order_id savedOrder))), w5, qr2)
      | Some completeOrder \<Rightarrow> (Inr completeOrder, w5, qr2))))))"

definition afterAssignment ::
  "env \<Rightarrow> OrderInput \<Rightarrow> User \<Rightarrow> PriceDetails
     \<Rightarrow> (error + DeliverySlot \<times> SlotAssignmentMethod) \<times> world \<times> queryRunner
     \<Rightarrow> (error + CompleteOrder) \<times> world \<times> queryRunner" where
  \<comment> \<open>What follows step 4: its error is passed on, its slot goes into steps 5 to 7.\<close>
  "afterAssignment e orderInput user priceDetails assigned =
     (case assigned of
        (Inl err, w1, qr1) \<Rightarrow> (Inl err, w1, qr1)
      | (Inr (deliverySlot, slotAssignmentMethod), w1, qr1) \<Rightarrow>
          persistAndNotify e orderInput user priceDetails deliverySlot slotAssignmentMethod w1 qr1)"

definition createOrderSteps ::
  "env \<Rightarrow> OrderInput \<Rightarrow> world \<Rightarrow> queryRunner \<Rightarrow> (error + CompleteOrder) \<times> world \<times> queryRunner" where
  \<comment> \<open>The inner \<open>try\<close> block.\<close>
  "createOrderSteps e orderInput w qr =
     (let inventoryValidation = validateInventory e (items orderInput)
      in if \<not> valid inventoryValidation then
           (Inl (Error (''Inventory validation failed: ''
                        @ join '', '' (errors inventoryValidation))), w, qr)
         else
      (case findUser (committed w) (in_userId orderInput) of
        None \<Rightarrow>
          (Inl (Error (''User with ID '' @ toString (in_userId orderInput) @ '' not found'')), w, qr)
      | Some user \<Rightarrow>
      (case calculatePrice e (items orderInput) of
        None \<Rightarrow> (Inl PricingFailed, w, qr)
      | Some priceDetails \<Rightarrow>
          afterAssignment e orderInput user priceDetails (assignDeliverySlot e orderInput w qr))))"

definition settle :: "(error + CompleteOrder) \<times> world \<times> queryRunner \<Rightarrow> (error + CompleteOrder) \<times> world" where
  \<comment> \<open>The \<open>catch\<close> clause: an error rolls the transaction back before it is thrown again.
      Releasing the query runner changes nothing that is modelled.\<close>
  "settle outcome =
     (case outcome of
        (Inr completeOrder, w', qr) \<Rightarrow> (Inr completeOrder, w')
      | (Inl err, w', qr) \<Rightarrow>
          (case rollbackTransaction qr of
             Inl err' \<Rightarrow> (Inl err', w')
           | Inr qr' \<Rightarrow> (Inl err, w')))"

definition createOrder :: "env \<Rightarrow> OrderInput \<Rightarrow> world \<Rightarrow> (error + CompleteOrder) \<times> world" where
  "createOrder e orderInput w = settle (createOrderSteps e orderInput w startTransaction)"

section \<open>Two requests in flight\<close>

text \<open>
  \<open>createOrder\<close> is asynchronous: at each \<open>await\<close> another request may run. The
  schedule modelled here is the one in which two requests for the same preferred slot have
  both passed steps 1 to 3 and have both had their availability read answered from the
  committed table before either of them writes; the first request then runs to its end,
  and after it the second, each in a transaction of its own. Nothing the second request
  does after its availability read looks at the slot table again before its commit, so
  running its remainder after the first request's commit gives what any finer
  interleaving of the two remainders gives.
\<close>

definition resumeAfterValidation ::
  "env \<Rightarrow> OrderInput \<Rightarrow> User \<Rightarrow> PriceDetails \<Rightarrow> SlotValidation \<Rightarrow> world
     \<Rightarrow> (error + CompleteOrder) \<times> world" where
  \<comment> \<open>A request from the point where \<open>validateSlotAvailability\<close> has answered.\<close>
  "resumeAfterValidation e orderInput user priceDetails slotValidation w =
     settle (afterAssignment e orderInput user priceDetails
               (reserveOrFallBack e slotValidation w startTransaction))"

definition twoRequests ::
  "env \<Rightarrow> OrderInput \<Rightarrow> OrderInput \<Rightarrow> User \<Rightarrow> PriceDetails \<Rightarrow> int \<Rightarrow> world
     \<Rightarrow> (error + CompleteOrder) \<times> (error + CompleteOrder) \<times> world" where
  "twoRequests e first second user priceDetails sid w =
     (case validateSlotAvailability (now e) sid (committed w) of
        (validation1, db1) \<Rightarrow>
     (case validateSlotAvailability (now e) sid db1 of
        (validation2, db2) \<Rightarrow>
     (case resumeAfterValidation e first user priceDetails validation1 (w\<lparr>committed := db2\<rparr>) of
        (result1, w1) \<Rightarrow>
     (case resumeAfterValidation e second user priceDetails validation2 w1 of
        (result2, w2) \<Rightarrow> (result1, result2, w2)))))"

section \<open>The capacity invariant\<close>

definition withinCapacity :: "DeliverySlot \<Rightarrow> bool" where
  \<comment> \<open>The invariant the data model states for a slot.\<close>
  "withinCapacity s \<longleftrightarrow> 0 \<le> currentUsage s \<and> currentUsage s \<le> maxCapacity s"

section \<open>Scenarios\<close>

definition slotAt :: "int \<Rightarrow> int \<Rightarrow> bool \<Rightarrow> int \<Rightarrow> int \<Rightarrow> DeliverySlot" where
  \<comment> \<open>A three-hour slot: identifier, start, active flag, usage, capacity.\<close>
  "slotAt i t a u m =
     \<lparr>slot_id = i, startTime = t, endTime = t + 10800000, isActive = a,
      currentUsage = u, maxCapacity = m\<rparr>"

definition slotStore :: "DeliverySlot list \<Rightarrow> store" where
  "slotStore ss = \<lparr>slots = ss, orders = [], orderItems = [], notifications = [],
                   users = [\<lparr>user_id = 1\<rparr>]\<rparr>"

definition scenarioPrices :: PriceDetails where
  \<comment> \<open>Item A priced 10, no discount, total 20.\<close>
  "scenarioPrices = \<lparr>pd_totalAmount = 20, itemPrices = [''A'' \<mapsto> 10], itemDiscounts = Map.empty\<rparr>"

definition scenarioEnv :: "DeliverySlot option \<Rightarrow> (table \<Rightarrow> bool) \<Rightarrow> env" where
  \<comment> \<open>The clock at one second past the epoch in a zone on universal time, an inventory that
      validates, the prices above, the given answer of the default assigner and the given
      rejections of the store.\<close>
  "scenarioEnv d r =
     \<lparr>now = 1000, tz = (\<lambda>_. 0),
      validateInventory = (\<lambda>_. \<lparr>valid = True, errors = []\<rparr>),
      calculatePrice = (\<lambda>_. Some scenarioPrices),
      assignDefaultSlot = (\<lambda>_. d), rejects = r\<rparr>"

definition accepting :: "table \<Rightarrow> bool" where
  \<comment> \<open>A store that rejects no save.\<close>
  "accepting t = False"

definition rejecting :: "table \<Rightarrow> table \<Rightarrow> bool" where
  \<comment> \<open>A store that rejects the saves to one table.\<close>
  "rejecting x t = (t = x)"

definition orderFor :: "int option \<Rightarrow> OrderInput" where
  \<comment> \<open>User 1 orders two of item A, with the given preferred slot.\<close>
  "orderFor p = \<lparr>in_userId = 1, in_addressId = 1, items = [\<lparr>in_skuId = ''A'', qty = 2\<rparr>],
                 preferredSlotId = p\<rparr>"

definition worldOf :: "DeliverySlot list \<Rightarrow> world" where
  "worldOf ss = \<lparr>committed = slotStore ss, published = []\<rparr>"

definition sunday14 :: int where
  \<comment> \<open>Sunday 4 January 1970, 14:00 universal time.\<close>
  "sunday14 = 309600000"

section \<open>Properties of the Slot Availability Checker\<close>

lemma findSlot_Some_id: "findSlot db sid = Some s \<Longrightarrow> slot_id s = sid \<and> s \<in> set (slots db)"
  unfolding findSlot_def by (auto simp: find_Some_iff)

lemma findSlot_None: "findSlot db sid = None \<longleftrightarrow> (\<forall>s \<in> set (slots db). slot_id s \<noteq> sid)"
  unfolding findSlot_def by (auto simp: find_None_iff)



section \<open>The steps of order creation, one by one\<close>

lemma validate_store [simp]: "snd (validateSlotAvailability t sid db) = db"
  unfolding validateSlotAvailability_def by (simp split: option.splits)

lemma validate_pair: "validateSlotAvailability t sid db = (fst (validateSlotAvailability t sid db), db)"
  by (simp add: prod_eq_iff)

lemma validate_available_iff:
  "isAvailable (fst (validateSlotAvailability t sid db)) \<longleftrightarrow>
     (\<exists>s. findSlot db sid = Some s \<and> isActive s \<and> currentUsage s < maxCapacity s \<and> t < startTime s)"
  unfolding validateSlotAvailability_def by (auto split: option.splits)

lemma validate_available_slot:
  "isAvailable (fst (validateSlotAvailability t sid db)) \<Longrightarrow>
     slot (fst (validateSlotAvailability t sid db)) = findSlot db sid"
  unfolding validateSlotAvailability_def by (auto split: option.splits)

lemma reserveOrFallBack_available:
  "isAvailable sv \<Longrightarrow> slot sv = Some s \<Longrightarrow>
   reserveOrFallBack e sv w qr =
     (if rejects e DeliverySlotTable then (Inl (StoreRejected DeliverySlotTable), w, qr)
      else (Inr (s\<lparr>currentUsage := currentUsage s + 1\<rparr>, user_selected), w,
            qr\<lparr>pendingSlots := pendingSlots qr @ [s\<lparr>currentUsage := currentUsage s + 1\<rparr>]\<rparr>))"
  unfolding reserveOrFallBack_def managerSave_def by (simp add: Let_def)

lemma reserveOrFallBack_unavailable:
  "\<not> isAvailable sv \<or> slot sv = None \<Longrightarrow>
   reserveOrFallBack e sv w qr =
     (case assignDefaultSlot e (committed w) of
        None \<Rightarrow> (Inl (Error ''No delivery slots available''), w, qr)
      | Some d \<Rightarrow> (Inr (d, fallback), w, qr))"
  unfolding reserveOrFallBack_def by (auto split: option.splits bool.splits)

lemma assignDeliverySlot_preferred:
  "provided (preferredSlotId oi) = Some sid \<Longrightarrow>
   assignDeliverySlot e oi w qr =
     reserveOrFallBack e (fst (validateSlotAvailability (now e) sid (committed w))) w qr"
  unfolding assignDeliverySlot_def
  by (subst validate_pair) simp

lemma assignDeliverySlot_absent:
  "provided (preferredSlotId oi) = None \<Longrightarrow>
   assignDeliverySlot e oi w qr =
     (case assignDefaultSlot e (committed w) of
        None \<Rightarrow> (Inl (Error ''No delivery slots available''), w, qr)
      | Some d \<Rightarrow> (Inr (d, auto_assigned), w, qr))"
  unfolding assignDeliverySlot_def by simp

lemma find_append_last: "P x \<Longrightarrow> find P (xs @ [x]) \<noteq> None"
  by (auto simp: find_None_iff)

lemma find_fresh_last: "\<forall>y \<in> set xs. \<not> P y \<Longrightarrow> P x \<Longrightarrow> find P (xs @ [x]) = Some x"
  by (induction xs) auto

lemma fold_max_ge: "fold max xs (a::int) \<ge> a \<and> (\<forall>x \<in> set xs. x \<le> fold max xs a)"
proof (induction xs arbitrary: a)
  case Nil
  show ?case by simp
next
  case (Cons y ys)
  from Cons.IH [of "max y a"] show ?case by auto
qed

lemma nextId_fresh: "x \<in> set ids \<Longrightarrow> x < nextId ids"
  unfolding nextId_def using fold_max_ge [of 0 ids] by auto

lemma template_order_created:
  "map_of NOTIFICATION_TEMPLATES ''order_created'' =
     Some (''Order Confirmation'',
           ''Your order #{orderId} has been received and is being processed. {deliveryInfo}'')"
  by (simp add: NOTIFICATION_TEMPLATES_def)

lemma notifyUser_Inl: "notifyUser e oid ty uid bag w = (Inl err, w') \<Longrightarrow> w' = w"
  unfolding notifyUser_def
  by (auto split: option.splits if_splits prod.splits simp: Let_def)

lemma notifyUser_Inr:
  "notifyUser e oid ty uid bag w = (Inr n, w') \<Longrightarrow>
     committed w' = (committed w)\<lparr>notifications := notifications (committed w) @ [n]\<rparr>
     \<and> \<not> rejects e NotificationTable \<and> n_orderId n = oid \<and> n_userId n = uid \<and> n_type n = ty
     \<and> \<not> isRead n
     \<and> (\<exists>t. map_of NOTIFICATION_TEMPLATES ty = Some (title n, t)
            \<and> content n = interpolate t (messageData oid (formatDeliveryTime e oid bag (committed w)) bag))"
  unfolding notifyUser_def notificationWithId_def
  by (auto split: option.splits if_splits prod.splits simp: Let_def)

lemma notifyUser_rejected:
  "rejects e NotificationTable \<Longrightarrow> map_of NOTIFICATION_TEMPLATES ty = Some tt \<Longrightarrow>
     notifyUser e oid ty uid bag w = (Inl (StoreRejected NotificationTable), w)"
  unfolding notifyUser_def by (auto split: prod.splits simp: Let_def)

lemma notifyUser_accepted:
  "\<not> rejects e NotificationTable \<Longrightarrow> map_of NOTIFICATION_TEMPLATES ty = Some tt \<Longrightarrow>
     \<exists>n w'. notifyUser e oid ty uid bag w = (Inr n, w')"
  unfolding notifyUser_def by (auto split: prod.splits simp: Let_def)

lemma persist_order_rejected:
  "rejects e OrderTable \<Longrightarrow>
     persistAndNotify e oi u pd s m w qr = (Inl (StoreRejected OrderTable), w, qr)"
  unfolding persistAndNotify_def saveOrder_def by simp

lemma persist_items_rejected:
  "\<not> rejects e OrderTable \<Longrightarrow> rejects e OrderItemTable \<Longrightarrow>
     persistAndNotify e oi u pd s m w qr =
       (Inl (StoreRejected OrderItemTable),
        w\<lparr>committed := (committed w)\<lparr>orders := orders (committed w) @
             [orderWithId (newOrderFor oi pd s) (nextId (map order_id (orders (committed w))))]\<rparr>\<rparr>,
        qr)"
  unfolding persistAndNotify_def saveOrder_def saveOrderItems_def by (simp add: Let_def)

lemma persist_notification_rejected:
  "\<not> rejects e OrderTable \<Longrightarrow> \<not> rejects e OrderItemTable \<Longrightarrow> rejects e NotificationTable \<Longrightarrow>
     persistAndNotify e oi u pd s m w qr =
       (Inl (StoreRejected NotificationTable),
        w\<lparr>committed := (committed w)\<lparr>orders := orders (committed w) @
             [orderWithId (newOrderFor oi pd s) (nextId (map order_id (orders (committed w))))],
           orderItems := orderItems (committed w) @
             map (makeOrderItem pd (nextId (map order_id (orders (committed w))))) (items oi)\<rparr>\<rparr>,
        qr)"
  unfolding persistAndNotify_def saveOrder_def saveOrderItems_def
  by (simp add: Let_def notifyUser_rejected [OF _ template_order_created] orderWithId_def)

lemma persist_success:
  assumes acc: "\<not> rejects e OrderTable" "\<not> rejects e OrderItemTable" "\<not> rejects e NotificationTable"
  shows "\<exists>co n w'. persistAndNotify e oi u pd s m w qr =
                      (Inr co, w', \<lparr>isTransactionActive = False, pendingSlots = []\<rparr>)
     \<and> co_order co = orderWithId (newOrderFor oi pd s) (nextId (map order_id (orders (committed w))))
     \<and> findCompleteOrder (committed w') (nextId (map order_id (orders (committed w)))) = Some co
     \<and> n_orderId n = nextId (map order_id (orders (committed w)))
     \<and> content n = interpolate
          ''Your order #{orderId} has been received and is being processed. {deliveryInfo}''
          (messageData (n_orderId n)
             (formatDeliveryTime e (n_orderId n) (orderCreatedData m s)
                ((committed w)\<lparr>orders := orders (committed w) @ [co_order co],
                   orderItems := orderItems (committed w) @
                     map (makeOrderItem pd (n_orderId n)) (items oi)\<rparr>))
             (orderCreatedData m s))
     \<and> committed w' = (committed w)
         \<lparr>orders := orders (committed w) @ [co_order co],
          orderItems := orderItems (committed w) @
             map (makeOrderItem pd (order_id (co_order co))) (items oi),
          notifications := notifications (committed w) @ [n],
          slots := fold saveSlotRow (pendingSlots qr) (slots (committed w))\<rparr>"
proof -
  let ?oid = "nextId (map order_id (orders (committed w)))"
  let ?saved = "orderWithId (newOrderFor oi pd s) ?oid"
  let ?w3 = "w\<lparr>committed := (committed w)\<lparr>orders := orders (committed w) @ [?saved],
               orderItems := orderItems (committed w) @ map (makeOrderItem pd ?oid) (items oi)\<rparr>\<rparr>"
  from notifyUser_accepted [OF acc(3) template_order_created]
  obtain n w4 where nu: "notifyUser e ?oid ''order_created'' (user_id u) (orderCreatedData m s) ?w3 = (Inr n, w4)"
    by blast
  from notifyUser_Inr [OF nu] template_order_created
  have w4: "committed w4 = (committed ?w3)\<lparr>notifications := notifications (committed ?w3) @ [n]\<rparr>"
    and n: "n_orderId n = ?oid"
      "content n = interpolate
          ''Your order #{orderId} has been received and is being processed. {deliveryInfo}''
          (messageData ?oid (formatDeliveryTime e ?oid (orderCreatedData m s) (committed ?w3))
             (orderCreatedData m s))"
    by auto
  have fresh: "\<forall>y \<in> set (orders (committed w)). order_id y \<noteq> ?oid"
    using nextId_fresh [of _ "map order_id (orders (committed w))"] by fastforce
  have oid: "order_id ?saved = ?oid" by (simp add: orderWithId_def)
  have fo: "findOrder ((committed w4)\<lparr>slots := fold saveSlotRow (pendingSlots qr) (slots (committed w4))\<rparr>) ?oid
              = Some ?saved"
    unfolding findOrder_def using fresh oid by (simp add: w4 find_fresh_last)
  then obtain co where co: "findCompleteOrder
      ((committed w4)\<lparr>slots := fold saveSlotRow (pendingSlots qr) (slots (committed w4))\<rparr>) ?oid = Some co"
      and co_ord: "co_order co = ?saved"
    unfolding findCompleteOrder_def by auto
  have run: "persistAndNotify e oi u pd s m w qr =
      (Inr co, w4\<lparr>committed := (committed w4)\<lparr>slots := fold saveSlotRow (pendingSlots qr) (slots (committed w4))\<rparr>\<rparr>,
       \<lparr>isTransactionActive = False, pendingSlots = []\<rparr>)"
    unfolding persistAndNotify_def saveOrder_def saveOrderItems_def commitTransaction_def
    using acc nu co by (simp add: Let_def oid)
  show ?thesis
    apply (rule exI [of _ co], rule exI [of _ n], rule exI)
    apply (rule conjI, rule run)
    using co co_ord n oid by (simp add: w4)
qed


lemma settle_Inr: "settle (Inr co, w', qr) = (Inr co, w')"
  by (simp add: settle_def)

lemma settle_Inl: "isTransactionActive qr \<Longrightarrow> settle (Inl err, w', qr) = (Inl err, w')"
  by (simp add: settle_def rollbackTransaction_def)

lemma assign_shape:
  assumes "assignDeliverySlot e oi w startTransaction = (r, w', qr)"
  shows "w' = w \<and> isTransactionActive qr \<and>
         (case r of
            Inr (s', user_selected) \<Rightarrow>
              (\<exists>s sid. provided (preferredSlotId oi) = Some sid \<and> findSlot (committed w) sid = Some s
                 \<and> isActive s \<and> currentUsage s < maxCapacity s \<and> now e < startTime s
                 \<and> s' = s\<lparr>currentUsage := currentUsage s + 1\<rparr> \<and> pendingSlots qr = [s'])
          | _ \<Rightarrow> pendingSlots qr = [])"
proof (cases "provided (preferredSlotId oi)")
  case None
  with assms show ?thesis
    by (auto simp: assignDeliverySlot_absent startTransaction_def split: option.splits)
next
  case (Some sid)
  let ?sv = "fst (validateSlotAvailability (now e) sid (committed w))"
  show ?thesis
  proof (cases "isAvailable ?sv")
    case True
    with validate_available_iff [of "now e" sid "committed w"] validate_available_slot [of "now e" sid "committed w"]
    obtain s where s: "findSlot (committed w) sid = Some s" "isActive s"
        "currentUsage s < maxCapacity s" "now e < startTime s" "slot ?sv = Some s"
      by auto
    from assms Some True s show ?thesis
      by (auto simp: assignDeliverySlot_preferred reserveOrFallBack_available startTransaction_def
               split: if_splits)
  next
    case False
    with assms Some show ?thesis
      by (auto simp: assignDeliverySlot_preferred reserveOrFallBack_unavailable startTransaction_def
               split: option.splits)
  qed
qed

lemma createOrder_invalid_inventory:
  "\<not> valid (validateInventory e (items oi)) \<Longrightarrow>
     createOrder e oi w =
       (Inl (Error (''Inventory validation failed: '' @ join '', '' (errors (validateInventory e (items oi))))), w)"
  by (simp add: createOrder_def createOrderSteps_def settle_Inl startTransaction_def)

lemma createOrder_no_user:
  "valid (validateInventory e (items oi)) \<Longrightarrow> findUser (committed w) (in_userId oi) = None \<Longrightarrow>
     createOrder e oi w =
       (Inl (Error (''User with ID '' @ toString (in_userId oi) @ '' not found'')), w)"
  by (simp add: createOrder_def createOrderSteps_def settle_Inl startTransaction_def)

lemma createOrder_no_price:
  "valid (validateInventory e (items oi)) \<Longrightarrow> findUser (committed w) (in_userId oi) = Some u \<Longrightarrow>
   calculatePrice e (items oi) = None \<Longrightarrow> createOrder e oi w = (Inl PricingFailed, w)"
  by (simp add: createOrder_def createOrderSteps_def settle_Inl startTransaction_def)

lemma createOrder_reaches:
  "valid (validateInventory e (items oi)) \<Longrightarrow> findUser (committed w) (in_userId oi) = Some u \<Longrightarrow>
   calculatePrice e (items oi) = Some pd \<Longrightarrow>
     createOrder e oi w =
       settle (afterAssignment e oi u pd (assignDeliverySlot e oi w startTransaction))"
  by (simp add: createOrder_def createOrderSteps_def)

lemma createOrder_no_slot:
  assumes "valid (validateInventory e (items oi))" "findUser (committed w) (in_userId oi) = Some u"
    "calculatePrice e (items oi) = Some pd"
    "assignDeliverySlot e oi w startTransaction = (Inl err, w', qr)"
  shows "createOrder e oi w = (Inl err, w)"
  using assign_shape [OF assms(4)] assms
  by (simp add: createOrder_reaches afterAssignment_def settle_Inl)

lemma createOrder_after_assignment:
  assumes steps: "valid (validateInventory e (items oi))" "findUser (committed w) (in_userId oi) = Some u"
    "calculatePrice e (items oi) = Some pd"
    and asg: "assignDeliverySlot e oi w startTransaction = (Inr (s, m), w', qr)"
  shows "createOrder e oi w =
     (if rejects e OrderTable then (Inl (StoreRejected OrderTable), w)
      else if rejects e OrderItemTable then
        (Inl (StoreRejected OrderItemTable),
         w\<lparr>committed := (committed w)\<lparr>orders := orders (committed w) @
             [orderWithId (newOrderFor oi pd s) (nextId (map order_id (orders (committed w))))]\<rparr>\<rparr>)
      else if rejects e NotificationTable then
        (Inl (StoreRejected NotificationTable),
         w\<lparr>committed := (committed w)\<lparr>orders := orders (committed w) @
             [orderWithId (newOrderFor oi pd s) (nextId (map order_id (orders (committed w))))],
           orderItems := orderItems (committed w) @
             map (makeOrderItem pd (nextId (map order_id (orders (committed w))))) (items oi)\<rparr>\<rparr>)
      else (fst (persistAndNotify e oi u pd s m w qr), fst (snd (persistAndNotify e oi u pd s m w qr))))"
proof -
  from assign_shape [OF asg] have w': "w' = w" and act: "isTransactionActive qr" by auto
  have eq: "createOrder e oi w = settle (persistAndNotify e oi u pd s m w qr)"
    using steps asg w' by (simp add: createOrder_reaches afterAssignment_def)
  show ?thesis
  proof (cases "rejects e OrderTable \<or> rejects e OrderItemTable \<or> rejects e NotificationTable")
    case True
    then show ?thesis unfolding eq
      using act
      by (auto simp: persist_order_rejected persist_items_rejected persist_notification_rejected settle_Inl)
  next
    case False
    with persist_success [of e oi u pd s m w qr]
    obtain co w5 qr5 where "persistAndNotify e oi u pd s m w qr = (Inr co, w5, qr5)" by blast
    with False show ?thesis unfolding eq by (simp add: settle_Inr)
  qed
qed

lemma set_saveSlotRow: "set (saveSlotRow s rows) \<subseteq> insert s (set rows)"
  unfolding saveSlotRow_def by auto

lemma find_saveSlotRow: "find (\<lambda>r. slot_id r = slot_id s) (saveSlotRow s rows) = Some s"
proof (cases "\<exists>r \<in> set rows. slot_id r = slot_id s")
  case True
  then have "find (\<lambda>r. slot_id r = slot_id s) (map (\<lambda>r. if slot_id r = slot_id s then s else r) rows) = Some s"
    by (induction rows) auto
  with True show ?thesis by (simp add: saveSlotRow_def)
next
  case False
  then show ?thesis by (simp add: saveSlotRow_def find_fresh_last)
qed

lemma createOrder_success:
  assumes "createOrder e oi w = (Inr co, w')"
  shows "\<exists>u pd s m qr n.
      valid (validateInventory e (items oi)) \<and> findUser (committed w) (in_userId oi) = Some u
    \<and> calculatePrice e (items oi) = Some pd
    \<and> assignDeliverySlot e oi w startTransaction = (Inr (s, m), w, qr)
    \<and> \<not> rejects e OrderTable \<and> \<not> rejects e OrderItemTable \<and> \<not> rejects e NotificationTable
    \<and> co_order co = orderWithId (newOrderFor oi pd s) (nextId (map order_id (orders (committed w))))
    \<and> findCompleteOrder (committed w') (order_id (co_order co)) = Some co
    \<and> n_orderId n = order_id (co_order co)
    \<and> content n = interpolate
          ''Your order #{orderId} has been received and is being processed. {deliveryInfo}''
          (messageData (n_orderId n)
             (formatDeliveryTime e (n_orderId n) (orderCreatedData m s)
                ((committed w)\<lparr>orders := orders (committed w) @ [co_order co],
                   orderItems := orderItems (committed w) @
                     map (makeOrderItem pd (n_orderId n)) (items oi)\<rparr>))
             (orderCreatedData m s))
    \<and> committed w' = (committed w)
         \<lparr>orders := orders (committed w) @ [co_order co],
          orderItems := orderItems (committed w) @
             map (makeOrderItem pd (order_id (co_order co))) (items oi),
          notifications := notifications (committed w) @ [n],
          slots := fold saveSlotRow (pendingSlots qr) (slots (committed w))\<rparr>"
proof -
  have v: "valid (validateInventory e (items oi))"
    using assms createOrder_invalid_inventory [of e oi w] by auto
  obtain u where u: "findUser (committed w) (in_userId oi) = Some u"
    using assms createOrder_no_user [OF v, of w] by (cases "findUser (committed w) (in_userId oi)") auto
  obtain pd where pd: "calculatePrice e (items oi) = Some pd"
    using assms createOrder_no_price [OF v u] by (cases "calculatePrice e (items oi)") auto
  obtain r w1 qr where asg: "assignDeliverySlot e oi w startTransaction = (r, w1, qr)"
    by (metis prod_cases3)
  from assign_shape [OF asg] have w1: "w1 = w" by simp
  obtain s m where r: "r = Inr (s, m)"
    using assms createOrder_no_slot [OF v u pd] asg by (cases r) auto
  note after = createOrder_after_assignment [OF v u pd asg [unfolded r]]
  from after assms have acc: "\<not> rejects e OrderTable" "\<not> rejects e OrderItemTable" "\<not> rejects e NotificationTable"
    by (auto split: if_splits)
  from persist_success [OF acc, of oi u pd s m w qr]
  obtain co' n w5 where ps: "persistAndNotify e oi u pd s m w qr =
                      (Inr co', w5, \<lparr>isTransactionActive = False, pendingSlots = []\<rparr>)"
     and rest: "co_order co' = orderWithId (newOrderFor oi pd s) (nextId (map order_id (orders (committed w))))"
     "findCompleteOrder (committed w5) (nextId (map order_id (orders (committed w)))) = Some co'"
     "n_orderId n = nextId (map order_id (orders (committed w)))"
     "content n = interpolate
          ''Your order #{orderId} has been received and is being processed. {deliveryInfo}''
          (messageData (n_orderId n)
             (formatDeliveryTime e (n_orderId n) (orderCreatedData m s)
                ((committed w)\<lparr>orders := orders (committed w) @ [co_order co'],
                   orderItems := orderItems (committed w) @
                     map (makeOrderItem pd (n_orderId n)) (items oi)\<rparr>))
             (orderCreatedData m s))"
     "committed w5 = (committed w)
         \<lparr>orders := orders (committed w) @ [co_order co'],
          orderItems := orderItems (committed w) @
             map (makeOrderItem pd (order_id (co_order co'))) (items oi),
          notifications := notifications (committed w) @ [n],
          slots := fold saveSlotRow (pendingSlots qr) (slots (committed w))\<rparr>"
    by blast
  from after acc ps assms have same: "co' = co" "w5 = w'" by auto
  have oid: "order_id (co_order co) = nextId (map order_id (orders (committed w)))"
    using rest(1) same by (simp add: orderWithId_def)
  show ?thesis
    apply (rule exI [of _ u], rule exI [of _ pd], rule exI [of _ s], rule exI [of _ m],
           rule exI [of _ qr], rule exI [of _ n])
    using v u pd asg r w1 acc rest same oid by simp
qed

lemma createOrder_accepted:
  assumes "valid (validateInventory e (items oi))" "findUser (committed w) (in_userId oi) = Some u"
    "calculatePrice e (items oi) = Some pd"
    "assignDeliverySlot e oi w startTransaction = (Inr (s, m), w', qr)"
    "\<not> rejects e OrderTable" "\<not> rejects e OrderItemTable" "\<not> rejects e NotificationTable"
  shows "\<exists>co w''. createOrder e oi w = (Inr co, w'')"
proof -
  from persist_success [OF assms(5-7), of oi u pd s m w qr]
  obtain co w5 qr5 where "persistAndNotify e oi u pd s m w qr = (Inr co, w5, qr5)" by blast
  with createOrder_after_assignment [OF assms(1-4)] assms(5-7) show ?thesis by simp
qed

lemma createOrder_failure_slots:
  assumes "createOrder e oi w = (Inl err, w')"
  shows "slots (committed w') = slots (committed w) \<and> users (committed w') = users (committed w)"
proof (cases "valid (validateInventory e (items oi))")
  case False
  with assms show ?thesis by (simp add: createOrder_invalid_inventory)
next
  case v: True
  show ?thesis
  proof (cases "findUser (committed w) (in_userId oi)")
    case None
    with assms v show ?thesis by (simp add: createOrder_no_user)
  next
    case (Some u)
    show ?thesis
    proof (cases "calculatePrice e (items oi)")
      case None
      with assms v Some show ?thesis by (simp add: createOrder_no_price)
    next
      case pd: (Some pd)
      obtain r w1 qr where asg: "assignDeliverySlot e oi w startTransaction = (r, w1, qr)"
        by (metis prod_cases3)
      show ?thesis
      proof (cases r)
        case (Inl a)
        with createOrder_no_slot [OF v Some pd] asg assms show ?thesis by simp
      next
        case (Inr sm)
        obtain s m where sm: "sm = (s, m)" by (cases sm)
        note after = createOrder_after_assignment [OF v Some pd asg [unfolded Inr sm]]
        show ?thesis
        proof (cases "rejects e OrderTable \<or> rejects e OrderItemTable \<or> rejects e NotificationTable")
          case True
          with after assms show ?thesis by (auto split: if_splits)
        next
          case False
          with createOrder_accepted [OF v Some pd asg [unfolded Inr sm]] assms show ?thesis by auto
        qed
      qed
    qed
  qed
qed

lemma createOrder_slots_after:
  "slots (committed (snd (createOrder e oi w))) =
     (case (fst (createOrder e oi w), fst (assignDeliverySlot e oi w startTransaction)) of
        (Inr co, Inr (s', user_selected)) \<Rightarrow> saveSlotRow s' (slots (committed w))
      | _ \<Rightarrow> slots (committed w))"
proof (cases "createOrder e oi w")
  case (Pair res w')
  show ?thesis
  proof (cases res)
    case (Inl err)
    with Pair createOrder_failure_slots [of e oi w err w'] show ?thesis by simp
  next
    case (Inr co)
    from createOrder_success [OF Pair [unfolded Inr]]
    obtain s m qr where asg: "assignDeliverySlot e oi w startTransaction = (Inr (s, m), w, qr)"
      and sl: "slots (committed w') = fold saveSlotRow (pendingSlots qr) (slots (committed w))"
      by auto
    from assign_shape [OF asg] have
      "(m = user_selected \<longrightarrow> pendingSlots qr = [s]) \<and> (m \<noteq> user_selected \<longrightarrow> pendingSlots qr = [])"
      by (cases m) auto
    with Pair Inr asg sl show ?thesis by (cases m) auto
  qed
qed

text \<open>
  Claim C10. When the slot of an order comes from the default assigner (method
  \<open>auto_assigned\<close> or \<open>fallback\<close>), \<open>createOrder\<close> leaves the slot table as it found it,
  so the usage counter of that slot is not incremented. The slot table differs after a
  call only when the call succeeded on the \<open>user_selected\<close> path, and then by exactly
  the save of the preferred slot with its usage incremented by one.
\<close>

theorem createOrder_writes_no_default_slot:
  "(\<forall>d m. fst (assignDeliverySlot e oi w startTransaction) = Inr (d, m) \<and> m \<noteq> user_selected \<longrightarrow>
       assignDefaultSlot e (committed w) = Some d
     \<and> slots (committed (snd (createOrder e oi w))) = slots (committed w))
   \<and> (slots (committed (snd (createOrder e oi w))) \<noteq> slots (committed w) \<longrightarrow>
        (\<exists>s co. fst (createOrder e oi w) = Inr co
           \<and> findSlot (committed w) (slot_id s) = Some s
           \<and> fst (assignDeliverySlot e oi w startTransaction)
               = Inr (s\<lparr>currentUsage := currentUsage s + 1\<rparr>, user_selected)
           \<and> slots (committed (snd (createOrder e oi w)))
               = saveSlotRow (s\<lparr>currentUsage := currentUsage s + 1\<rparr>) (slots (committed w))))"
proof (intro conjI allI impI)
  fix d m
  assume a: "fst (assignDeliverySlot e oi w startTransaction) = Inr (d, m) \<and> m \<noteq> user_selected"
  show "slots (committed (snd (createOrder e oi w))) = slots (committed w)"
    using a by (cases m) (auto simp: createOrder_slots_after split: sum.splits)
  show "assignDefaultSlot e (committed w) = Some d"
  proof (cases "provided (preferredSlotId oi)")
    case None
    with a show ?thesis by (auto simp: assignDeliverySlot_absent split: option.splits)
  next
    case (Some sid)
    let ?sv = "fst (validateSlotAvailability (now e) sid (committed w))"
    show ?thesis
    proof (cases "isAvailable ?sv")
      case True
      with validate_available_iff [of "now e" sid "committed w"]
        validate_available_slot [of "now e" sid "committed w"]
      obtain s where "slot ?sv = Some s" by auto
      with a Some True show ?thesis
        by (auto simp: assignDeliverySlot_preferred reserveOrFallBack_available split: if_splits)
    next
      case False
      with a Some show ?thesis
        by (auto simp: assignDeliverySlot_preferred reserveOrFallBack_unavailable split: option.splits)
    qed
  qed
next
  assume ch: "slots (committed (snd (createOrder e oi w))) \<noteq> slots (committed w)"
  obtain r w1 qr where asg: "assignDeliverySlot e oi w startTransaction = (r, w1, qr)"
    by (metis prod_cases3)
  from ch obtain co s' where co: "fst (createOrder e oi w) = Inr co" and r: "r = Inr (s', user_selected)"
    and sl: "slots (committed (snd (createOrder e oi w))) = saveSlotRow s' (slots (committed w))"
    using asg
    by (auto simp: createOrder_slots_after split: sum.splits SlotAssignmentMethod.splits)
  from assign_shape [OF asg] r obtain s sid where
    s: "findSlot (committed w) sid = Some s" "s' = s\<lparr>currentUsage := currentUsage s + 1\<rparr>"
    by auto
  from findSlot_Some_id [OF s(1)] have "slot_id s = sid" by simp
  with s co r sl asg show "\<exists>s co. fst (createOrder e oi w) = Inr co
           \<and> findSlot (committed w) (slot_id s) = Some s
           \<and> fst (assignDeliverySlot e oi w startTransaction)
               = Inr (s\<lparr>currentUsage := currentUsage s + 1\<rparr>, user_selected)
           \<and> slots (committed (snd (createOrder e oi w)))
               = saveSlotRow (s\<lparr>currentUsage := currentUsage s + 1\<rparr>) (slots (committed w))"
    by auto
qed

theorem createOrder_writes_no_default_slot_witness:
  "fst (assignDeliverySlot (scenarioEnv (Some (slotAt 2 sunday14 True 0 5)) accepting) (orderFor (Some 1))
          (worldOf [slotAt 1 sunday14 True 1 1, slotAt 2 sunday14 True 0 5]) startTransaction)
     = Inr (slotAt 2 sunday14 True 0 5, fallback)
   \<and> fallback \<noteq> user_selected
   \<and> slots (committed (snd (createOrder (scenarioEnv (Some (slotAt 2 sunday14 True 0 5)) accepting)
          (orderFor (Some 1)) (worldOf [slotAt 1 sunday14 True 1 1, slotAt 2 sunday14 True 0 5]))))
     = [slotAt 1 sunday14 True 1 1, slotAt 2 sunday14 True 0 5]"
proof -
  let ?e = "scenarioEnv (Some (slotAt 2 sunday14 True 0 5)) accepting"
  let ?w = "worldOf [slotAt 1 sunday14 True 1 1, slotAt 2 sunday14 True 0 5]"
  have a: "fst (assignDeliverySlot ?e (orderFor (Some 1)) ?w startTransaction)
             = Inr (slotAt 2 sunday14 True 0 5, fallback)"
    by code_simp
  have b: "slots (committed ?w) = [slotAt 1 sunday14 True 1 1, slotAt 2 sunday14 True 0 5]"
    by (simp add: worldOf_def slotStore_def)
  from createOrder_writes_no_default_slot [of ?e "orderFor (Some 1)" ?w] a b
  have "slots (committed (snd (createOrder ?e (orderFor (Some 1)) ?w)))
          = [slotAt 1 sunday14 True 1 1, slotAt 2 sunday14 True 0 5]"
    by simp
  with a show ?thesis by simp
qed

lemma findSlot_saveSlotRow:
  "findSlot (db\<lparr>slots := saveSlotRow s (slots db)\<rparr>) (slot_id s) = Some s"
  by (simp add: findSlot_def find_saveSlotRow)

lemma capacity_invariant_step:
  assumes inv: "\<forall>s \<in> set (slots (committed w)). 0 \<le> currentUsage s \<and> currentUsage s \<le> maxCapacity s"
  shows "(\<forall>s \<in> set (slots (committed (snd (createOrder e oi w)))).
            0 \<le> currentUsage s \<and> currentUsage s \<le> maxCapacity s)
     \<and> (\<forall>co s'. fst (createOrder e oi w) = Inr co
            \<and> fst (assignDeliverySlot e oi w startTransaction) = Inr (s', user_selected) \<longrightarrow>
          (\<exists>s. findSlot (committed w) (slot_id s') = Some s
             \<and> findSlot (committed (snd (createOrder e oi w))) (slot_id s') = Some s'
             \<and> currentUsage s' = currentUsage s + 1
             \<and> s' = s\<lparr>currentUsage := currentUsage s + 1\<rparr>
             \<and> currentUsage s' \<le> maxCapacity s'))"
proof -
  obtain r w1 qr where asg: "assignDeliverySlot e oi w startTransaction = (r, w1, qr)"
    by (metis prod_cases3)
  have reserved: "\<exists>s. findSlot (committed w) (slot_id s') = Some s
        \<and> s' = s\<lparr>currentUsage := currentUsage s + 1\<rparr> \<and> currentUsage s < maxCapacity s
        \<and> 0 \<le> currentUsage s"
    if "r = Inr (s', user_selected)" for s'
  proof -
    from assign_shape [OF asg] that obtain s sid where
      s: "findSlot (committed w) sid = Some s" "currentUsage s < maxCapacity s"
         "s' = s\<lparr>currentUsage := currentUsage s + 1\<rparr>"
      by auto
    from findSlot_Some_id [OF s(1)] inv have "slot_id s = sid" "0 \<le> currentUsage s" by auto
    with s show ?thesis by auto
  qed
  have first: "\<forall>s \<in> set (slots (committed (snd (createOrder e oi w)))).
            0 \<le> currentUsage s \<and> currentUsage s \<le> maxCapacity s"
  proof (cases "\<exists>co s'. fst (createOrder e oi w) = Inr co \<and> r = Inr (s', user_selected)")
    case True
    then obtain co s' where c: "fst (createOrder e oi w) = Inr co" "r = Inr (s', user_selected)"
      by blast
    with asg have sl: "slots (committed (snd (createOrder e oi w))) = saveSlotRow s' (slots (committed w))"
      by (simp add: createOrder_slots_after)
    from reserved [OF c(2)] have "0 \<le> currentUsage s' \<and> currentUsage s' \<le> maxCapacity s'"
      by auto
    with inv set_saveSlotRow [of s' "slots (committed w)"] show ?thesis
      unfolding sl by auto
  next
    case False
    with asg have "slots (committed (snd (createOrder e oi w))) = slots (committed w)"
      by (auto simp: createOrder_slots_after split: sum.splits SlotAssignmentMethod.splits)
    with inv show ?thesis by simp
  qed
  have second: "\<exists>s. findSlot (committed w) (slot_id s') = Some s
             \<and> findSlot (committed (snd (createOrder e oi w))) (slot_id s') = Some s'
             \<and> currentUsage s' = currentUsage s + 1
             \<and> s' = s\<lparr>currentUsage := currentUsage s + 1\<rparr>
             \<and> currentUsage s' \<le> maxCapacity s'"
    if c: "fst (createOrder e oi w) = Inr co \<and> fst (assignDeliverySlot e oi w startTransaction) = Inr (s', user_selected)"
    for co s'
  proof -
    from c asg have r: "r = Inr (s', user_selected)" by simp
    from c have sl: "slots (committed (snd (createOrder e oi w))) = saveSlotRow s' (slots (committed w))"
      by (simp add: createOrder_slots_after)
    have "findSlot (committed (snd (createOrder e oi w))) (slot_id s') = Some s'"
      unfolding findSlot_def sl by (rule find_saveSlotRow)
    with reserved [OF r] show ?thesis by auto
  qed
  from first second show ?thesis by blast
qed

text \<open>
  Claim C6. If every delivery slot has \<open>0 \<le> currentUsage \<le> maxCapacity\<close> before a call
  of \<open>createOrder\<close>, every slot has it after the call, whether the call succeeded or
  failed. When the call succeeds with the method \<open>user_selected\<close>, the preferred slot is
  found afterwards with its usage exactly one higher than before, and not above its
  capacity.
\<close>

theorem createOrder_capacity_invariant:
  assumes inv: "list_all withinCapacity (slots (committed w))"
  shows "list_all withinCapacity (slots (committed (snd (createOrder e oi w))))
     \<and> (\<forall>co s'. fst (createOrder e oi w) = Inr co
            \<and> fst (assignDeliverySlot e oi w startTransaction) = Inr (s', user_selected) \<longrightarrow>
          (\<exists>s. findSlot (committed w) (slot_id s') = Some s
             \<and> findSlot (committed (snd (createOrder e oi w))) (slot_id s') = Some s'
             \<and> currentUsage s' = currentUsage s + 1
             \<and> s' = s\<lparr>currentUsage := currentUsage s + 1\<rparr>
             \<and> currentUsage s' \<le> maxCapacity s'))"
  using capacity_invariant_step [of w e oi] inv
  unfolding list_all_iff withinCapacity_def by blast

theorem createOrder_capacity_invariant_witness:
  "list_all withinCapacity (slots (committed (worldOf [slotAt 1 sunday14 True 0 1])))
   \<and> list_all withinCapacity
        (slots (committed (snd (createOrder (scenarioEnv None accepting) (orderFor (Some 1))
                                  (worldOf [slotAt 1 sunday14 True 0 1])))))
   \<and> findSlot (committed (snd (createOrder (scenarioEnv None accepting) (orderFor (Some 1))
                                  (worldOf [slotAt 1 sunday14 True 0 1])))) 1
       = Some (slotAt 1 sunday14 True 1 1)"
proof -
  let ?e = "scenarioEnv None accepting"
  let ?w = "worldOf [slotAt 1 sunday14 True 0 1]"
  have inv: "list_all withinCapacity (slots (committed ?w))"
    by (simp add: worldOf_def slotStore_def slotAt_def withinCapacity_def)
  have asg: "fst (assignDeliverySlot ?e (orderFor (Some 1)) ?w startTransaction)
               = Inr (slotAt 1 sunday14 True 1 1, user_selected)"
    by code_simp
  have ok: "isl (fst (createOrder ?e (orderFor (Some 1)) ?w)) = False"
    by code_simp
  then obtain co where co: "fst (createOrder ?e (orderFor (Some 1)) ?w) = Inr co"
    by (cases "fst (createOrder ?e (orderFor (Some 1)) ?w)") auto
  note th = createOrder_capacity_invariant [OF inv, of ?e "orderFor (Some 1)"]
  from th co asg have "findSlot (committed (snd (createOrder ?e (orderFor (Some 1)) ?w)))
        (slot_id (slotAt 1 sunday14 True 1 1)) = Some (slotAt 1 sunday14 True 1 1)"
    by blast
  then have "findSlot (committed (snd (createOrder ?e (orderFor (Some 1)) ?w))) 1
               = Some (slotAt 1 sunday14 True 1 1)"
    by (simp add: slotAt_def)
  with inv th show ?thesis by blast
qed

lemma provided_Some: "provided p = Some sid \<longleftrightarrow> p = Some sid \<and> sid \<noteq> 0"
  by (auto simp: provided_def split: option.splits)

lemma provided_None: "provided p = None \<longleftrightarrow> p = None \<or> p = Some 0"
  by (auto simp: provided_def split: option.splits)

text \<open>
  Claim C3, as stated, fails for the identifier 0: the request prefers slot 0, the checker
  reports slot 0 available, and the order is given the default slot with the method
  \<open>auto_assigned\<close> while the usage of slot 0 stays 0.
\<close>

theorem user_selected_reservation_counterexample:
  "preferredSlotId (orderFor (Some 0)) = Some 0
   \<and> isAvailable (fst (validateSlotAvailability (now (scenarioEnv (Some (slotAt 2 sunday14 True 0 5)) accepting)) 0
        (committed (worldOf [slotAt 0 sunday14 True 0 1, slotAt 2 sunday14 True 0 5]))))
   \<and> fst (assignDeliverySlot (scenarioEnv (Some (slotAt 2 sunday14 True 0 5)) accepting) (orderFor (Some 0))
          (worldOf [slotAt 0 sunday14 True 0 1, slotAt 2 sunday14 True 0 5]) startTransaction)
       = Inr (slotAt 2 sunday14 True 0 5, auto_assigned)
   \<and> map deliverySlotId (orders (committed (snd
        (createOrder (scenarioEnv (Some (slotAt 2 sunday14 True 0 5)) accepting) (orderFor (Some 0))
          (worldOf [slotAt 0 sunday14 True 0 1, slotAt 2 sunday14 True 0 5])))))
       = [Some 2]
   \<and> slots (committed (snd (createOrder (scenarioEnv (Some (slotAt 2 sunday14 True 0 5)) accepting)
          (orderFor (Some 0)) (worldOf [slotAt 0 sunday14 True 0 1, slotAt 2 sunday14 True 0 5]))))
       = [slotAt 0 sunday14 True 0 1, slotAt 2 sunday14 True 0 5]"
  by code_simp

text \<open>
  Claim C3, amended. For every order request whose preferred slot identifier is not 0 and
  is reported available by the checker: the allocation, unless the store rejects the save
  of the slot, succeeds with the method \<open>user_selected\<close> and holds the slot with its usage
  incremented by one as a write of the open transaction, the committed table being
  untouched; whenever \<open>createOrder\<close> returns an order, that order references the
  preferred slot, is returned with it, and the committed slot has its usage exactly one
  higher than before; and \<open>createOrder\<close> does return an order when steps 1 to 3 pass
  and the store rejects no save.
\<close>

theorem user_selected_reservation:
  assumes pref: "preferredSlotId oi = Some sid" "sid \<noteq> 0"
    and avail: "isAvailable (fst (validateSlotAvailability (now e) sid (committed w)))"
  shows "\<exists>s. findSlot (committed w) sid = Some s
     \<and> (\<not> rejects e DeliverySlotTable \<longrightarrow>
          assignDeliverySlot e oi w startTransaction =
            (Inr (s\<lparr>currentUsage := currentUsage s + 1\<rparr>, user_selected), w,
             \<lparr>isTransactionActive = True,
              pendingSlots = [s\<lparr>currentUsage := currentUsage s + 1\<rparr>]\<rparr>))
     \<and> (\<forall>co w'. createOrder e oi w = (Inr co, w') \<longrightarrow>
          deliverySlotId (co_order co) = Some sid
          \<and> co_deliverySlot co = Some (s\<lparr>currentUsage := currentUsage s + 1\<rparr>)
          \<and> findSlot (committed w') sid = Some (s\<lparr>currentUsage := currentUsage s + 1\<rparr>))
     \<and> (valid (validateInventory e (items oi)) \<and> findUser (committed w) (in_userId oi) \<noteq> None
          \<and> calculatePrice e (items oi) \<noteq> None \<and> (\<forall>t. \<not> rejects e t) \<longrightarrow>
          (\<exists>co w'. createOrder e oi w = (Inr co, w')))"
proof -
  let ?sv = "fst (validateSlotAvailability (now e) sid (committed w))"
  from pref have prov: "provided (preferredSlotId oi) = Some sid" by (simp add: provided_Some)
  from avail validate_available_iff [of "now e" sid "committed w"]
    validate_available_slot [of "now e" sid "committed w"]
  obtain s where s: "findSlot (committed w) sid = Some s" "slot ?sv = Some s" by auto
  let ?s' = "s\<lparr>currentUsage := currentUsage s + 1\<rparr>"
  from findSlot_Some_id [OF s(1)] have sid: "slot_id s = sid" by simp
  have asg: "assignDeliverySlot e oi w startTransaction =
      (if rejects e DeliverySlotTable then (Inl (StoreRejected DeliverySlotTable), w, startTransaction)
       else (Inr (?s', user_selected), w, \<lparr>isTransactionActive = True, pendingSlots = [?s']\<rparr>))"
    using prov avail s
    by (simp add: assignDeliverySlot_preferred reserveOrFallBack_available startTransaction_def)
  have succ: "deliverySlotId (co_order co) = Some sid \<and> co_deliverySlot co = Some ?s'
          \<and> findSlot (committed w') sid = Some ?s'"
    if c: "createOrder e oi w = (Inr co, w')" for co w'
  proof -
    from createOrder_success [OF c]
    obtain pd s0 m qr where a0: "assignDeliverySlot e oi w startTransaction = (Inr (s0, m), w, qr)"
      and co0: "co_order co = orderWithId (newOrderFor oi pd s0)
                                        (nextId (map order_id (orders (committed w))))"
      and fc: "findCompleteOrder (committed w') (order_id (co_order co)) = Some co"
      by blast
    from a0 asg have nr: "\<not> rejects e DeliverySlotTable" "s0 = ?s'" "m = user_selected"
      by (auto split: if_splits)
    from co0 nr have co: "co_order co = orderWithId (newOrderFor oi pd ?s')
                                        (nextId (map order_id (orders (committed w))))"
      by simp
    from c a0 nr have sl: "slots (committed w') = saveSlotRow ?s' (slots (committed w))"
      using createOrder_slots_after [of e oi w] by simp
    have f: "findSlot (committed w') sid = Some ?s'"
      unfolding findSlot_def sl using find_saveSlotRow [of ?s' "slots (committed w)"] sid by simp
    have d: "deliverySlotId (co_order co) = Some sid"
      using co sid by (simp add: orderWithId_def newOrderFor_def)
    from fc have "co_deliverySlot co = deliverySlotOf (committed w') (co_order co)"
      by (auto simp: findCompleteOrder_def)
    with d f have "co_deliverySlot co = Some ?s'" by (simp add: deliverySlotOf_def)
    with d f show ?thesis by simp
  qed
  have ex: "\<exists>co w'. createOrder e oi w = (Inr co, w')"
    if h: "valid (validateInventory e (items oi)) \<and> findUser (committed w) (in_userId oi) \<noteq> None
          \<and> calculatePrice e (items oi) \<noteq> None \<and> (\<forall>t. \<not> rejects e t)"
  proof -
    from h obtain u pd where "findUser (committed w) (in_userId oi) = Some u"
      "calculatePrice e (items oi) = Some pd" by auto
    with h asg createOrder_accepted [of e oi w u pd ?s' user_selected w] show ?thesis by auto
  qed
  from s(1) asg succ ex show ?thesis by auto
qed


theorem user_selected_reservation_witness:
  "preferredSlotId (orderFor (Some 1)) = Some 1 \<and> (1::int) \<noteq> 0
   \<and> isAvailable (fst (validateSlotAvailability (now (scenarioEnv None accepting)) 1
                        (committed (worldOf [slotAt 1 sunday14 True 0 1]))))
   \<and> assignDeliverySlot (scenarioEnv None accepting) (orderFor (Some 1))
        (worldOf [slotAt 1 sunday14 True 0 1]) startTransaction
      = (Inr (slotAt 1 sunday14 True 1 1, user_selected), worldOf [slotAt 1 sunday14 True 0 1],
         \<lparr>isTransactionActive = True, pendingSlots = [slotAt 1 sunday14 True 1 1]\<rparr>)
   \<and> map deliverySlotId (orders (committed (snd (createOrder (scenarioEnv None accepting)
        (orderFor (Some 1)) (worldOf [slotAt 1 sunday14 True 0 1]))))) = [Some 1]
   \<and> findSlot (committed (snd (createOrder (scenarioEnv None accepting) (orderFor (Some 1))
        (worldOf [slotAt 1 sunday14 True 0 1])))) 1 = Some (slotAt 1 sunday14 True 1 1)"
proof -
  let ?e = "scenarioEnv None accepting"
  let ?oi = "orderFor (Some 1)"
  let ?w = "worldOf [slotAt 1 sunday14 True 0 1]"
  have p: "preferredSlotId ?oi = Some 1" by (simp add: orderFor_def)
  have a: "isAvailable (fst (validateSlotAvailability (now ?e) 1 (committed ?w)))"
    by code_simp
  have f: "findSlot (committed ?w) 1 = Some (slotAt 1 sunday14 True 0 1)"
    by (simp add: findSlot_def worldOf_def slotStore_def slotAt_def)
  have inc: "(slotAt 1 sunday14 True 0 1)\<lparr>currentUsage := currentUsage (slotAt 1 sunday14 True 0 1) + 1\<rparr>
               = slotAt 1 sunday14 True 1 1"
    by (simp add: slotAt_def)
  have h: "valid (validateInventory ?e (items ?oi)) \<and> findUser (committed ?w) (in_userId ?oi) \<noteq> None
          \<and> calculatePrice ?e (items ?oi) \<noteq> None \<and> (\<forall>t. \<not> rejects ?e t)"
    by (simp add: scenarioEnv_def accepting_def orderFor_def findUser_def worldOf_def slotStore_def)
  have nr: "\<not> rejects ?e DeliverySlotTable" using h by blast
  from user_selected_reservation [OF p _ a] f inc
  have asg: "\<not> rejects ?e DeliverySlotTable \<longrightarrow> assignDeliverySlot ?e ?oi ?w startTransaction
      = (Inr (slotAt 1 sunday14 True 1 1, user_selected), ?w,
         \<lparr>isTransactionActive = True, pendingSlots = [slotAt 1 sunday14 True 1 1]\<rparr>)"
    and succ: "\<forall>co w'. createOrder ?e ?oi ?w = (Inr co, w') \<longrightarrow>
          deliverySlotId (co_order co) = Some 1
          \<and> findSlot (committed w') 1 = Some (slotAt 1 sunday14 True 1 1)"
    and ex: "valid (validateInventory ?e (items ?oi)) \<and> findUser (committed ?w) (in_userId ?oi) \<noteq> None
          \<and> calculatePrice ?e (items ?oi) \<noteq> None \<and> (\<forall>t. \<not> rejects ?e t) \<longrightarrow>
          (\<exists>co w'. createOrder ?e ?oi ?w = (Inr co, w'))"
    by auto
  from ex h obtain co w' where c: "createOrder ?e ?oi ?w = (Inr co, w')" by blast
  from succ c have s1: "deliverySlotId (co_order co) = Some 1"
    and s2: "findSlot (committed w') 1 = Some (slotAt 1 sunday14 True 1 1)" by auto
  from createOrder_success [OF c] s1
  have "map deliverySlotId (orders (committed w')) = [Some 1]"
    by (auto simp: worldOf_def slotStore_def)
  with p a asg nr s2 c show ?thesis by simp
qed

text \<open>
  Claim C4, as stated, fails for the identifier 0: the request supplies the preferred slot
  0, no slot has that identifier, so the checker reports it unavailable, and the
  allocator answers with the method \<open>auto_assigned\<close>, not \<open>fallback\<close>; the
  notification says ``Scheduled for'' where a fallback says that the preferred slot was
  unavailable.
\<close>

theorem default_assignment_counterexample:
  "preferredSlotId (orderFor (Some 0)) = Some 0
   \<and> \<not> isAvailable (fst (validateSlotAvailability (now (scenarioEnv (Some (slotAt 2 sunday14 True 0 5)) accepting)) 0
        (committed (worldOf [slotAt 2 sunday14 True 0 5]))))
   \<and> fst (assignDeliverySlot (scenarioEnv (Some (slotAt 2 sunday14 True 0 5)) accepting) (orderFor (Some 0))
          (worldOf [slotAt 2 sunday14 True 0 5]) startTransaction)
       = Inr (slotAt 2 sunday14 True 0 5, auto_assigned)
   \<and> map content (notifications (committed (snd
        (createOrder (scenarioEnv (Some (slotAt 2 sunday14 True 0 5)) accepting) (orderFor (Some 0))
          (worldOf [slotAt 2 sunday14 True 0 5])))))
       = [''Your order #1 has been received and is being processed. Scheduled for Sunday 2:00 PM - 5:00 PM'']"
  by code_simp

text \<open>
  Claim C4, amended. If no preferred slot identifier is supplied, or the identifier
  supplied is 0, the allocator delegates to the default assigner with the method
  \<open>auto_assigned\<close>; if a preferred slot identifier other than 0 is supplied and the
  checker reports the slot unavailable, it delegates to the default assigner with the
  method \<open>fallback\<close>; in either case, when the default assigner returns no slot the
  allocation fails with ``No delivery slots available'', and an order creation that has
  passed steps 1 to 3 fails with that error and leaves the world as it was.
\<close>

theorem default_assignment:
  "(preferredSlotId oi = None \<or> preferredSlotId oi = Some 0 \<longrightarrow>
      assignDeliverySlot e oi w qr =
        (case assignDefaultSlot e (committed w) of
           None \<Rightarrow> (Inl (Error ''No delivery slots available''), w, qr)
         | Some d \<Rightarrow> (Inr (d, auto_assigned), w, qr)))
   \<and> (\<forall>sid. preferredSlotId oi = Some sid \<and> sid \<noteq> 0
          \<and> \<not> isAvailable (fst (validateSlotAvailability (now e) sid (committed w))) \<longrightarrow>
      assignDeliverySlot e oi w qr =
        (case assignDefaultSlot e (committed w) of
           None \<Rightarrow> (Inl (Error ''No delivery slots available''), w, qr)
         | Some d \<Rightarrow> (Inr (d, fallback), w, qr)))
   \<and> ((preferredSlotId oi = None \<or> preferredSlotId oi = Some 0
        \<or> (\<exists>sid. preferredSlotId oi = Some sid
               \<and> \<not> isAvailable (fst (validateSlotAvailability (now e) sid (committed w)))))
       \<and> assignDefaultSlot e (committed w) = None
       \<and> valid (validateInventory e (items oi)) \<and> findUser (committed w) (in_userId oi) \<noteq> None
       \<and> calculatePrice e (items oi) \<noteq> None \<longrightarrow>
      createOrder e oi w = (Inl (Error ''No delivery slots available''), w))"
proof (intro conjI allI impI)
  assume "preferredSlotId oi = None \<or> preferredSlotId oi = Some 0"
  then have "provided (preferredSlotId oi) = None" by (simp add: provided_None)
  then show "assignDeliverySlot e oi w qr =
        (case assignDefaultSlot e (committed w) of
           None \<Rightarrow> (Inl (Error ''No delivery slots available''), w, qr)
         | Some d \<Rightarrow> (Inr (d, auto_assigned), w, qr))"
    by (rule assignDeliverySlot_absent)
next
  fix sid
  assume a: "preferredSlotId oi = Some sid \<and> sid \<noteq> 0
          \<and> \<not> isAvailable (fst (validateSlotAvailability (now e) sid (committed w)))"
  then have "provided (preferredSlotId oi) = Some sid" by (simp add: provided_Some)
  with a show "assignDeliverySlot e oi w qr =
        (case assignDefaultSlot e (committed w) of
           None \<Rightarrow> (Inl (Error ''No delivery slots available''), w, qr)
         | Some d \<Rightarrow> (Inr (d, fallback), w, qr))"
    by (simp add: assignDeliverySlot_preferred reserveOrFallBack_unavailable)
next
  assume a: "(preferredSlotId oi = None \<or> preferredSlotId oi = Some 0
        \<or> (\<exists>sid. preferredSlotId oi = Some sid
               \<and> \<not> isAvailable (fst (validateSlotAvailability (now e) sid (committed w)))))
       \<and> assignDefaultSlot e (committed w) = None
       \<and> valid (validateInventory e (items oi)) \<and> findUser (committed w) (in_userId oi) \<noteq> None
       \<and> calculatePrice e (items oi) \<noteq> None"
  then obtain u pd where steps: "valid (validateInventory e (items oi))"
    "findUser (committed w) (in_userId oi) = Some u" "calculatePrice e (items oi) = Some pd"
    by auto
  have "assignDeliverySlot e oi w startTransaction
          = (Inl (Error ''No delivery slots available''), w, startTransaction)"
  proof (cases "provided (preferredSlotId oi)")
    case None
    with a show ?thesis by (simp add: assignDeliverySlot_absent)
  next
    case (Some sid)
    with a have "\<not> isAvailable (fst (validateSlotAvailability (now e) sid (committed w)))"
      by (auto simp: provided_Some)
    with a Some show ?thesis
      by (simp add: assignDeliverySlot_preferred reserveOrFallBack_unavailable)
  qed
  from createOrder_no_slot [OF steps this]
  show "createOrder e oi w = (Inl (Error ''No delivery slots available''), w)" .
qed

theorem default_assignment_witness:
  "preferredSlotId (orderFor None) = None
   \<and> assignDeliverySlot (scenarioEnv (Some (slotAt 2 sunday14 True 0 5)) accepting) (orderFor None)
        (worldOf [slotAt 2 sunday14 True 0 5]) startTransaction
      = (Inr (slotAt 2 sunday14 True 0 5, auto_assigned), worldOf [slotAt 2 sunday14 True 0 5],
         startTransaction)
   \<and> preferredSlotId (orderFor (Some 7)) = Some 7 \<and> (7::int) \<noteq> 0
   \<and> \<not> isAvailable (fst (validateSlotAvailability (now (scenarioEnv (Some (slotAt 2 sunday14 True 0 5)) accepting)) 7
        (committed (worldOf [slotAt 2 sunday14 True 0 5]))))
   \<and> assignDeliverySlot (scenarioEnv (Some (slotAt 2 sunday14 True 0 5)) accepting) (orderFor (Some 7))
        (worldOf [slotAt 2 sunday14 True 0 5]) startTransaction
      = (Inr (slotAt 2 sunday14 True 0 5, fallback), worldOf [slotAt 2 sunday14 True 0 5],
         startTransaction)
   \<and> createOrder (scenarioEnv None accepting) (orderFor (Some 7)) (worldOf [slotAt 2 sunday14 True 0 5])
      = (Inl (Error ''No delivery slots available''), worldOf [slotAt 2 sunday14 True 0 5])"
proof -
  let ?e = "scenarioEnv (Some (slotAt 2 sunday14 True 0 5)) accepting"
  let ?en = "scenarioEnv None accepting"
  let ?w = "worldOf [slotAt 2 sunday14 True 0 5]"
  have p0: "preferredSlotId (orderFor None) = None" and p7: "preferredSlotId (orderFor (Some 7)) = Some 7"
    by (simp_all add: orderFor_def)
  have d: "assignDefaultSlot ?e (committed ?w) = Some (slotAt 2 sunday14 True 0 5)"
    and d0: "assignDefaultSlot ?en (committed ?w) = None"
    by (simp_all add: scenarioEnv_def)
  have n: "now ?en = now ?e" by (simp add: scenarioEnv_def)
  have u: "\<not> isAvailable (fst (validateSlotAvailability (now ?e) 7 (committed ?w)))"
    by code_simp
  have steps: "valid (validateInventory ?en (items (orderFor (Some 7))))
      \<and> findUser (committed ?w) (in_userId (orderFor (Some 7))) \<noteq> None
      \<and> calculatePrice ?en (items (orderFor (Some 7))) \<noteq> None"
    by (simp add: scenarioEnv_def orderFor_def findUser_def worldOf_def slotStore_def)
  from default_assignment [of "orderFor None" ?e ?w startTransaction] p0 d
  have a: "assignDeliverySlot ?e (orderFor None) ?w startTransaction
      = (Inr (slotAt 2 sunday14 True 0 5, auto_assigned), ?w, startTransaction)"
    by simp
  from default_assignment [of "orderFor (Some 7)" ?e ?w startTransaction] p7 u d
  have b: "assignDeliverySlot ?e (orderFor (Some 7)) ?w startTransaction
      = (Inr (slotAt 2 sunday14 True 0 5, fallback), ?w, startTransaction)"
    by simp
  from default_assignment [of "orderFor (Some 7)" ?en ?w startTransaction] p7 u d0 steps n
  have c: "createOrder ?en (orderFor (Some 7)) ?w = (Inl (Error ''No delivery slots available''), ?w)"
    by auto
  from p0 a p7 u b c show ?thesis by simp
qed





lemma getHours_range: "0 \<le> getHours e t \<and> getHours e t < 24"
  by (simp add: getHours_def)







section \<open>Where the code parts from the specification\<close>

text \<open>
  Claim C1 does not hold of the code. The slot increment is written through the query
  runner and is undone by the rollback, but the order, its items and the notification are
  saved through the repositories of the data source, outside the transaction that is
  rolled back. A request whose item batch the store rejects returns the error and leaves
  the new order in the order table; one whose notification the store rejects leaves the
  order and its items. The slot table is as before in both.
\<close>

theorem createOrder_failure_leaves_rows:
  "worldOf [slotAt 1 sunday14 True 0 1]
     = \<lparr>committed = \<lparr>slots = [slotAt 1 sunday14 True 0 1], orders = [], orderItems = [],
                       notifications = [], users = [\<lparr>user_id = 1\<rparr>]\<rparr>,
        published = []\<rparr>
   \<and> createOrder (scenarioEnv None (rejecting OrderItemTable)) (orderFor (Some 1))
          (worldOf [slotAt 1 sunday14 True 0 1])
     = (Inl (StoreRejected OrderItemTable),
        \<lparr>committed = \<lparr>slots = [slotAt 1 sunday14 True 0 1],
            orders = [\<lparr>userId = 1, addressId = 1, deliverySlotId = Some 1, totalAmount = 20,
                       status = ''pending'', order_id = 1\<rparr>],
            orderItems = [], notifications = [], users = [\<lparr>user_id = 1\<rparr>]\<rparr>,
          published = []\<rparr>)
   \<and> createOrder (scenarioEnv None (rejecting NotificationTable)) (orderFor (Some 1))
          (worldOf [slotAt 1 sunday14 True 0 1])
     = (Inl (StoreRejected NotificationTable),
        \<lparr>committed = \<lparr>slots = [slotAt 1 sunday14 True 0 1],
            orders = [\<lparr>userId = 1, addressId = 1, deliverySlotId = Some 1, totalAmount = 20,
                       status = ''pending'', order_id = 1\<rparr>],
            orderItems = [\<lparr>orderId = 1, skuId = ''A'', quantity = 2, unitPrice = 10,
                           discount = 0, subtotal = 20\<rparr>],
            notifications = [], users = [\<lparr>user_id = 1\<rparr>]\<rparr>,
          published = []\<rparr>)"
proof -
  have before: "worldOf [slotAt 1 sunday14 True 0 1]
     = \<lparr>committed = \<lparr>slots = [slotAt 1 sunday14 True 0 1], orders = [], orderItems = [],
                       notifications = [], users = [\<lparr>user_id = 1\<rparr>]\<rparr>,
        published = []\<rparr>"
    by (simp add: worldOf_def slotStore_def)
  have items: "createOrder (scenarioEnv None (rejecting OrderItemTable)) (orderFor (Some 1))
          (worldOf [slotAt 1 sunday14 True 0 1])
     = (Inl (StoreRejected OrderItemTable),
        \<lparr>committed = \<lparr>slots = [slotAt 1 sunday14 True 0 1],
            orders = [\<lparr>userId = 1, addressId = 1, deliverySlotId = Some 1, totalAmount = 20,
                       status = ''pending'', order_id = 1\<rparr>],
            orderItems = [], notifications = [], users = [\<lparr>user_id = 1\<rparr>]\<rparr>,
          published = []\<rparr>)"
    by code_simp
  have notification: "createOrder (scenarioEnv None (rejecting NotificationTable)) (orderFor (Some 1))
          (worldOf [slotAt 1 sunday14 True 0 1])
     = (Inl (StoreRejected NotificationTable),
        \<lparr>committed = \<lparr>slots = [slotAt 1 sunday14 True 0 1],
            orders = [\<lparr>userId = 1, addressId = 1, deliverySlotId = Some 1, totalAmount = 20,
                       status = ''pending'', order_id = 1\<rparr>],
            orderItems = [\<lparr>orderId = 1, skuId = ''A'', quantity = 2, unitPrice = 10,
                           discount = 0, subtotal = 20\<rparr>],
            notifications = [], users = [\<lparr>user_id = 1\<rparr>]\<rparr>,
          published = []\<rparr>)"
    by code_simp
  from before items notification show ?thesis by blast
qed

text \<open>
  A request that reaches step 4 with a preferred slot is the availability read followed
  by the remainder that the schedule of two requests runs.
\<close>

lemma createOrder_resume:
  assumes "valid (validateInventory e (items oi))" "findUser (committed w) (in_userId oi) = Some u"
    "calculatePrice e (items oi) = Some pd" "provided (preferredSlotId oi) = Some sid"
  shows "createOrder e oi w =
           resumeAfterValidation e oi u pd (fst (validateSlotAvailability (now e) sid (committed w))) w"
  using assms
  by (simp add: createOrder_reaches resumeAfterValidation_def assignDeliverySlot_preferred)

text \<open>
  Claim C2 does not hold of the code. Two requests prefer slot 1, which has one place
  left. Both availability reads are answered before either request writes, so both find
  the slot available: both orders are created on slot 1, both notifications say that the
  selected delivery time was kept, and the slot ends with a usage of 1, its capacity,
  for two orders.
\<close>

theorem two_requests_share_last_place:
  "map deliverySlotId (orders (committed (snd (snd
      (twoRequests (scenarioEnv None accepting) (orderFor (Some 1)) (orderFor (Some 1))
         \<lparr>user_id = 1\<rparr> scenarioPrices 1 (worldOf [slotAt 1 sunday14 True 0 1]))))))
     = [Some 1, Some 1]
   \<and> map content (notifications (committed (snd (snd
      (twoRequests (scenarioEnv None accepting) (orderFor (Some 1)) (orderFor (Some 1))
         \<lparr>user_id = 1\<rparr> scenarioPrices 1 (worldOf [slotAt 1 sunday14 True 0 1]))))))
     = [''Your order #1 has been received and is being processed. Your selected delivery time: Sunday 2:00 PM - 5:00 PM'',
        ''Your order #2 has been received and is being processed. Your selected delivery time: Sunday 2:00 PM - 5:00 PM'']
   \<and> slots (committed (snd (snd
      (twoRequests (scenarioEnv None accepting) (orderFor (Some 1)) (orderFor (Some 1))
         \<lparr>user_id = 1\<rparr> scenarioPrices 1 (worldOf [slotAt 1 sunday14 True 0 1])))))
     = [slotAt 1 sunday14 True 1 1]"
proof -
  let ?e = "scenarioEnv None accepting"
  let ?oi = "orderFor (Some 1)"
  let ?u = "\<lparr>user_id = 1\<rparr>"
  let ?w = "worldOf [slotAt 1 sunday14 True 0 1]"
  let ?sv = "\<lparr>isAvailable = True, slot = Some (slotAt 1 sunday14 True 0 1), message = None\<rparr>"
  let ?o1 = "\<lparr>userId = 1, addressId = 1, deliverySlotId = Some 1, totalAmount = 20,
              status = ''pending'', order_id = 1\<rparr>"
  let ?o2 = "\<lparr>userId = 1, addressId = 1, deliverySlotId = Some 1, totalAmount = 20,
              status = ''pending'', order_id = 2\<rparr>"
  let ?i1 = "\<lparr>orderId = 1, skuId = ''A'', quantity = 2, unitPrice = 10, discount = 0, subtotal = 20\<rparr>"
  let ?i2 = "\<lparr>orderId = 2, skuId = ''A'', quantity = 2, unitPrice = 10, discount = 0, subtotal = 20\<rparr>"
  let ?c1 = "''Your order #1 has been received and is being processed. Your selected delivery time: Sunday 2:00 PM - 5:00 PM''"
  let ?c2 = "''Your order #2 has been received and is being processed. Your selected delivery time: Sunday 2:00 PM - 5:00 PM''"
  let ?n1 = "\<lparr>n_userId = 1, n_orderId = 1, n_type = ''order_created'', title = ''Order Confirmation'',
              content = ?c1, isRead = False, notification_id = 1\<rparr>"
  let ?n2 = "\<lparr>n_userId = 1, n_orderId = 2, n_type = ''order_created'', title = ''Order Confirmation'',
              content = ?c2, isRead = False, notification_id = 2\<rparr>"
  let ?p1 = "\<lparr>p_userId = 1, p_orderId = 1, p_type = ''order_created'', p_title = ''Order Confirmation'',
              p_content = ?c1, notificationId = 1\<rparr>"
  let ?p2 = "\<lparr>p_userId = 1, p_orderId = 2, p_type = ''order_created'', p_title = ''Order Confirmation'',
              p_content = ?c2, notificationId = 2\<rparr>"
  let ?w1 = "\<lparr>committed = \<lparr>slots = [slotAt 1 sunday14 True 1 1], orders = [?o1], orderItems = [?i1],
                 notifications = [?n1], users = [?u]\<rparr>, published = [?p1]\<rparr>"
  let ?w2 = "\<lparr>committed = \<lparr>slots = [slotAt 1 sunday14 True 1 1], orders = [?o1, ?o2],
                 orderItems = [?i1, ?i2], notifications = [?n1, ?n2], users = [?u]\<rparr>,
               published = [?p1, ?p2]\<rparr>"
  let ?co1 = "\<lparr>co_order = ?o1, co_items = [?i1], co_deliverySlot = Some (slotAt 1 sunday14 True 1 1),
               co_user = Some ?u\<rparr>"
  let ?co2 = "\<lparr>co_order = ?o2, co_items = [?i2], co_deliverySlot = Some (slotAt 1 sunday14 True 1 1),
               co_user = Some ?u\<rparr>"
  have v: "validateSlotAvailability (now ?e) 1 (committed ?w) = (?sv, committed ?w)"
    by code_simp
  have w: "?w\<lparr>committed := committed ?w\<rparr> = ?w" by simp
  have r1: "resumeAfterValidation ?e ?oi ?u scenarioPrices ?sv ?w = (Inr ?co1, ?w1)"
    by code_simp
  have r2: "resumeAfterValidation ?e ?oi ?u scenarioPrices ?sv ?w1 = (Inr ?co2, ?w2)"
    by code_simp
  have "twoRequests ?e ?oi ?oi ?u scenarioPrices 1 ?w = (Inr ?co1, Inr ?co2, ?w2)"
    by (simp only: twoRequests_def v w r1 r2 prod.case)
  then show ?thesis by simp
qed

text \<open>
  A value without a dollar sign is inserted as it is, and an entry that is neither a
  string nor a number leaves the content alone.
\<close>

lemma getSubstitution_literal:
  "CHR ''$'' \<notin> set r \<Longrightarrow> getSubstitution matched pre post r = r"
  by (induction matched pre post r rule: getSubstitution.induct) auto

lemma replace_literal:
  "CHR ''$'' \<notin> set v \<Longrightarrow> splitAtFirst pat str = Some (b, a) \<Longrightarrow> replace str pat v = b @ v @ a"
  by (simp add: replace_def getSubstitution_literal)

lemma replacePlaceholder_skips:
  "(\<forall>s. snd kv \<noteq> JString s) \<Longrightarrow> (\<forall>n. snd kv \<noteq> JNumber n) \<Longrightarrow> replacePlaceholder kv str = str"
  by (cases "snd kv") (simp_all add: replacePlaceholder_def)

text \<open>
  Claim C9 does not hold of the code. The value of a placeholder goes through the
  replacement patterns of \<open>String.prototype.replace\<close>: the reason ``Refund of $$5''
  appears in the content as ``Refund of $5'', and the reason ``$&'' leaves the
  placeholder in place.
\<close>

theorem interpolation_expands_dollar_patterns:
  "map content (notifications (committed (snd
      (notifyUser (scenarioEnv None accepting) 7 ''order_cancelled'' 1
         [(''reason'', JString ''Refund of $$5'')] (worldOf [])))))
     = [''Your order #7 has been cancelled. Refund of $5'']
   \<and> map content (notifications (committed (snd
      (notifyUser (scenarioEnv None accepting) 7 ''order_cancelled'' 1
         [(''reason'', JString ''$&'')] (worldOf [])))))
     = [''Your order #7 has been cancelled. {reason}'']"
proof -
  have a: "map content (notifications (committed (snd
      (notifyUser (scenarioEnv None accepting) 7 ''order_cancelled'' 1
         [(''reason'', JString ''Refund of $$5'')] (worldOf [])))))
     = [''Your order #7 has been cancelled. Refund of $5'']"
    by code_simp
  have b: "map content (notifications (committed (snd
      (notifyUser (scenarioEnv None accepting) 7 ''order_cancelled'' 1
         [(''reason'', JString ''$&'')] (worldOf [])))))
     = [''Your order #7 has been cancelled. {reason}'']"
    by code_simp
  from a b show ?thesis by blast
qed

end
